theory Spec2Isabelle
  imports
    Complex_Main
    "HOL-Library.Char_ord"
    "HOL-Library.List_Lexorder"
    "HOL-Library.Multiset"
    "HOL-Library.Signed_Division"
    "HOL-Library.Sublist"
begin

section \<open>Runtime primitives used by the HydrexFi sources\<close>

text \<open>
  The sources are TypeScript. The few built-ins they rely on are written out here:
  exceptions as values of a sum type, array sorting with a comparison callback, string
  joining, lower-casing and substring search, and reading an array at an index that may
  be out of range (JavaScript then yields \<^verbatim>\<open>undefined\<close>, here \<open>None\<close>).
\<close>

datatype error = TypeError | SyntaxError | Error string

type_synonym 'a result = "error + 'a"

text \<open>
  \<^verbatim>\<open>Array.prototype.sort(cmp)\<close>. The engine's sort (TimSort with binary insertion)
  consults the callback only as \<^verbatim>\<open>cmp(later, earlier) < 0\<close>: the later element moves
  in front of the earlier one exactly when the callback is negative, so a callback that
  answers \<open>1\<close> instead of \<open>0\<close> on a tie behaves like one that answers \<open>0\<close>.
  The model is the insertion sort with that test; \<open>insert_by cmp x ys\<close> places \<open>x\<close>,
  which comes later in the input, into the already sorted prefix \<open>ys\<close>. The callback
  returns a number.
\<close>

fun insert_by :: "('a \<Rightarrow> 'a \<Rightarrow> real) \<Rightarrow> 'a \<Rightarrow> 'a list \<Rightarrow> 'a list" where
  "insert_by cmp x [] = [x]"
| "insert_by cmp x (y # ys) =
     (if cmp x y < 0 then x # y # ys else y # insert_by cmp x ys)"

definition array_sort :: "('a \<Rightarrow> 'a \<Rightarrow> real) \<Rightarrow> 'a list \<Rightarrow> 'a list" where
  "array_sort cmp xs = foldl (\<lambda>acc x. insert_by cmp x acc) [] xs"

text \<open>\<^verbatim>\<open>Array.prototype.join(sep)\<close> on an array of strings.\<close>

fun join :: "string \<Rightarrow> string list \<Rightarrow> string" where
  "join sep [] = []"
| "join sep [x] = x"
| "join sep (x # y # ys) = x @ sep @ join sep (y # ys)"

text \<open>\<^verbatim>\<open>String.prototype.toLowerCase\<close>, on the ASCII letters an address is made of.\<close>

definition lower_char :: "char \<Rightarrow> char" where
  "lower_char c =
     (if CHR ''A'' \<le> c \<and> c \<le> CHR ''Z'' then char_of (of_char c + (32::nat)) else c)"

definition toLowerCase :: "string \<Rightarrow> string" where
  "toLowerCase s = map lower_char s"

text \<open>\<^verbatim>\<open>a[i]\<close> for a numeric index \<open>i\<close>: \<^verbatim>\<open>undefined\<close> outside the array.\<close>

definition at_index :: "'a list \<Rightarrow> int \<Rightarrow> 'a option" where
  "at_index xs i = (if 0 \<le> i \<and> i < int (length xs) then Some (xs ! nat i) else None)"

text \<open>
  Decimal text of an integer, as \<^verbatim>\<open>toString()\<close> of a \<^verbatim>\<open>BigNumber\<close>, of a
  \<^verbatim>\<open>bigint\<close> and of an integer-valued number (below \<open>10^21\<close>, where the exponent
  notation starts) gives it, and the way back,
  \<^verbatim>\<open>BigInt(text)\<close>: the empty text is \<open>0\<close>, an optional sign followed by decimal
  digits is that integer, anything else raises \<^verbatim>\<open>SyntaxError\<close>. (The literals with a
  radix prefix or white space around the digits, which \<^verbatim>\<open>BigInt\<close> also reads, are
  not texts that \<^verbatim>\<open>toString()\<close> produces and are left out.)
\<close>

definition digit_char :: "nat \<Rightarrow> char" where
  "digit_char d = char_of (48 + d)"

fun nat_to_string :: "nat \<Rightarrow> string" where
  "nat_to_string n =
     (if n < 10 then [digit_char n]
      else nat_to_string (n div 10) @ [digit_char (n mod 10)])"

declare nat_to_string.simps [simp del]

definition int_to_string :: "int \<Rightarrow> string" where
  "int_to_string i =
     (if i < 0 then CHR ''-'' # nat_to_string (nat (- i)) else nat_to_string (nat i))"

definition is_digit :: "char \<Rightarrow> bool" where
  "is_digit c = (48 \<le> (of_char c :: nat) \<and> (of_char c :: nat) \<le> 57)"

definition digit_val :: "char \<Rightarrow> nat" where
  "digit_val c = of_char c - 48"

definition parse_nat :: "string \<Rightarrow> nat option" where
  "parse_nat s =
     (if s \<noteq> [] \<and> list_all is_digit s
      then Some (foldl (\<lambda>a c. 10 * a + digit_val c) 0 s) else None)"

definition StringToBigInt :: "string \<Rightarrow> int option" where
  "StringToBigInt s =
     (case s of
        [] \<Rightarrow> Some 0
      | c # cs \<Rightarrow>
          if c = CHR ''-'' then map_option (\<lambda>n. - int n) (parse_nat cs)
          else if c = CHR ''+'' then map_option int (parse_nat cs)
          else map_option int (parse_nat s))"

definition BigInt :: "string \<Rightarrow> int result" where
  "BigInt s = (case StringToBigInt s of None \<Rightarrow> Inl SyntaxError | Some n \<Rightarrow> Inr n)"

text \<open>
  The values an event payload field can hold. A decoded log carries a \<^verbatim>\<open>BigNumber\<close>
  for a wide integer and a plain number for an integer of at most 48 bits (such as the
  \<^verbatim>\<open>int24\<close> tick); the handlers take \<^verbatim>\<open>event: any\<close>, so a field may also be
  text or be missing (\<open>None\<close> in the argument map). Numbers are the integers and
  \<^verbatim>\<open>NaN\<close>.
\<close>

datatype js_number = Num int | NaN

datatype js_value = JSNumber js_number | JSBigNumber int | JSString string

text \<open>\<^verbatim>\<open>v.toString()\<close>.\<close>

fun js_toString :: "js_value \<Rightarrow> string" where
  "js_toString (JSNumber (Num n)) = int_to_string n"
| "js_toString (JSNumber NaN) = ''NaN''"
| "js_toString (JSBigNumber n) = int_to_string n"
| "js_toString (JSString s) = s"

text \<open>Truthiness, as \<^verbatim>\<open>||\<close> tests it: \<open>0\<close>, \<^verbatim>\<open>NaN\<close> and the empty text are falsy,
  an object such as a \<^verbatim>\<open>BigNumber\<close> is truthy.\<close>

fun truthy :: "js_value \<Rightarrow> bool" where
  "truthy (JSNumber (Num n)) = (n \<noteq> 0)"
| "truthy (JSNumber NaN) = False"
| "truthy (JSBigNumber n) = True"
| "truthy (JSString s) = (s \<noteq> [])"

text \<open>\<^verbatim>\<open>Number(v)\<close>: a \<^verbatim>\<open>BigNumber\<close> converts through its decimal text; text that is
  not a number gives \<^verbatim>\<open>NaN\<close>. (Numbers are the integers here, so text with a fraction
  or an exponent is outside the model.)\<close>

fun Number :: "js_value \<Rightarrow> js_number" where
  "Number (JSNumber n) = n"
| "Number (JSBigNumber n) = Num n"
| "Number (JSString s) = (case StringToBigInt s of None \<Rightarrow> NaN | Some n \<Rightarrow> Num n)"

text \<open>\<^verbatim>\<open>s.includes(needle)\<close>.\<close>

definition str_includes :: "string \<Rightarrow> string \<Rightarrow> bool" where
  "str_includes s needle = sublist needle s"

text \<open>\<^verbatim>\<open>v.toLowerCase()\<close> on a payload field: a \<^verbatim>\<open>TypeError\<close> unless the field is text.\<close>

fun js_toLowerCase :: "js_value option \<Rightarrow> string result" where
  "js_toLowerCase (Some (JSString s)) = Inr (toLowerCase s)"
| "js_toLowerCase v = Inl TypeError"

section \<open>types.ts\<close>

text \<open>
  \<^verbatim>\<open>Pool\<close>: addresses are strings; \<^verbatim>\<open>tvlUSD\<close> is a JavaScript number, taken here as
  a real (the registry only stores finite values: a value that does not parse is replaced
  by \<open>0\<close> when a page is loaded).
\<close>

record Pool =
  poolAddress :: string
  token0 :: string
  token1 :: string
  deployer :: string
  tvlUSD :: real

text \<open>
  \<^verbatim>\<open>PoolState\<close>: a \<^verbatim>\<open>bigint\<close> is an unbounded integer. The three optional
  metadata fields carry the prefix \<open>state_\<close>, since \<open>token0\<close> and \<open>token1\<close> are
  fields of \<open>Pool\<close> already.
\<close>

record PoolState =
  sqrtPriceX96 :: int
  liquidity :: int
  tick :: js_number
  feeGrowthGlobal0X128 :: int
  feeGrowthGlobal1X128 :: int
  state_token0 :: "string option"
  state_token1 :: "string option"
  state_fee :: "js_number option"

text \<open>A raw log of the event feed, and a decoded one (\<^verbatim>\<open>LogDescription\<close>): the name of the
  event and its arguments by name.\<close>

record Log =
  log_address :: string
  log_topics :: "string list"
  log_data :: string

record LogDescription =
  name :: string
  args :: "string \<rightharpoonup> js_value"

section \<open>hydrex-fi-pool.ts: the pool-state event subscriber\<close>

text \<open>
  Each handler evaluates its object literal inside \<^verbatim>\<open>try\<close> and returns the state it was
  given from \<^verbatim>\<open>catch\<close>. \<^verbatim>\<open>handleSwap\<close> builds
  \<^verbatim>\<open>BigInt(event.args.sqrtPriceX96?.toString() || state.sqrtPriceX96)\<close> and
  \<^verbatim>\<open>Number(event.args.tick || state.tick)\<close>.
\<close>

definition handleSwap :: "LogDescription \<Rightarrow> PoolState \<Rightarrow> Log \<Rightarrow> PoolState option" where
  "handleSwap event state rawLog =
     (case (case map_option js_toString (args event ''sqrtPriceX96'') of
              None \<Rightarrow> Inr (sqrtPriceX96 state)
            | Some s \<Rightarrow> if s \<noteq> [] then BigInt s else Inr (sqrtPriceX96 state)) of
        Inl e \<Rightarrow> Some state
      | Inr price \<Rightarrow>
          Some (state\<lparr>sqrtPriceX96 := price,
                      tick := (case args event ''tick'' of
                                 None \<Rightarrow> tick state
                               | Some t \<Rightarrow> if truthy t then Number t else tick state)\<rparr>))"

text \<open>\<^verbatim>\<open>const liquidityDelta = BigInt(event.args.liquidity?.toString() || '0')\<close>, shared by
  \<^verbatim>\<open>handleMint\<close> and \<^verbatim>\<open>handleBurn\<close>.\<close>

definition liquidityDelta :: "LogDescription \<Rightarrow> int result" where
  "liquidityDelta event =
     (case map_option js_toString (args event ''liquidity'') of
        None \<Rightarrow> BigInt ''0''
      | Some s \<Rightarrow> if s \<noteq> [] then BigInt s else BigInt ''0'')"

definition handleMint :: "LogDescription \<Rightarrow> PoolState \<Rightarrow> Log \<Rightarrow> PoolState option" where
  "handleMint event state rawLog =
     (case liquidityDelta event of
        Inl e \<Rightarrow> Some state
      | Inr delta \<Rightarrow> Some (state\<lparr>liquidity := liquidity state + delta\<rparr>))"

definition handleBurn :: "LogDescription \<Rightarrow> PoolState \<Rightarrow> Log \<Rightarrow> PoolState option" where
  "handleBurn event state rawLog =
     (case liquidityDelta event of
        Inl e \<Rightarrow> Some state
      | Inr delta \<Rightarrow> Some (state\<lparr>liquidity := liquidity state - delta\<rparr>))"

definition handleCollect :: "LogDescription \<Rightarrow> PoolState \<Rightarrow> Log \<Rightarrow> PoolState option" where
  "handleCollect event state rawLog = Some state"

text \<open>
  The handler table filled in by the constructor. \<^verbatim>\<open>event.name in this.handlers\<close> is
  the lookup in this table: the decoder only yields event names of the pool ABI, none of
  which is a property that the table inherits from \<^verbatim>\<open>Object.prototype\<close>.
\<close>

definition handlers ::
  "string \<rightharpoonup> (LogDescription \<Rightarrow> PoolState \<Rightarrow> Log \<Rightarrow> PoolState option)" where
  "handlers =
     [''Swap'' \<mapsto> handleSwap, ''Mint'' \<mapsto> handleMint,
      ''Burn'' \<mapsto> handleBurn, ''Collect'' \<mapsto> handleCollect]"

text \<open>
  \<^verbatim>\<open>HydrexFiEventPool.processLog\<close>. The decoder (\<^verbatim>\<open>Interface.parseLog\<close> of the pool
  ABI) is an argument; it raises on a log it cannot decode. The whole body is inside
  \<^verbatim>\<open>try\<close>; \<^verbatim>\<open>catch\<close> hands the exception to \<^verbatim>\<open>catchParseLogError\<close>, which only
  logs, and the function returns \<^verbatim>\<open>null\<close>.
\<close>

definition HydrexFiEventPool_processLog ::
  "(Log \<Rightarrow> LogDescription result) \<Rightarrow> PoolState \<Rightarrow> Log \<Rightarrow> PoolState option" where
  "HydrexFiEventPool_processLog logDecoder state rawLog =
     (case logDecoder rawLog of
        Inl e \<Rightarrow> None
      | Inr event \<Rightarrow>
          (case handlers (name event) of
             Some handler \<Rightarrow> handler event state rawLog
           | None \<Rightarrow> None))"

section \<open>hydrex-fi-factory.ts: the pool registry\<close>

text \<open>
  The registry is the private array \<^verbatim>\<open>this.pools\<close>; every method below takes it as an
  argument and, where the method assigns or pushes, returns the new array.

  The subgraph is reached through \<^verbatim>\<open>dexHelper.httpRequest.querySubgraph\<close>, an argument
  of the model: it answers a query (pinned block or latest, \<^verbatim>\<open>skip\<close>, \<^verbatim>\<open>first\<close>) with a
  response or raises. In a response, \<^verbatim>\<open>errors\<close> lists the messages the subgraph reports
  (empty when the field is missing) and \<open>data_pools\<close> is \<^verbatim>\<open>data.pools\<close>, the pools as
  the subgraph describes them (\<open>None\<close> when the response has no data);
  \<^verbatim>\<open>totalValueLockedUSD\<close> is held as the number \<^verbatim>\<open>parseFloat\<close> reads from its text,
  \<open>None\<close> when it reads none (\<^verbatim>\<open>NaN\<close>).
\<close>

record SubgraphPool =
  pool_id :: string
  pool_deployer :: string
  totalValueLockedUSD :: "real option"
  token0_id :: string
  token1_id :: string

record SubgraphResponse =
  errors :: "string list"
  data_pools :: "SubgraphPool list option"

record SubgraphQuery =
  block :: "nat option"
  skip :: nat
  first :: nat

text \<open>The object built for each pool of a page:
  \<^verbatim>\<open>tvlUSD: parseFloat(pool.totalValueLockedUSD) || 0\<close>.\<close>

definition toPool :: "SubgraphPool \<Rightarrow> Pool" where
  "toPool pool =
     \<lparr>poolAddress = toLowerCase (pool_id pool),
      token0 = toLowerCase (token0_id pool),
      token1 = toLowerCase (token1_id pool),
      deployer = toLowerCase (pool_deployer pool),
      tvlUSD = (case totalValueLockedUSD pool of None \<Rightarrow> 0 | Some v \<Rightarrow> v)\<rparr>"

text \<open>
  \<^verbatim>\<open>queryOnePageForAllAvailablePoolsFromSubgraph\<close>. On a "missing block" or
  "not yet available" message it calls itself with \<^verbatim>\<open>latestBlock = true\<close>, and does so
  again for as long as the subgraph repeats that message: the function need not return,
  and \<open>None\<close> is the run that never does.
\<close>

partial_function (option) queryOnePageForAllAvailablePoolsFromSubgraph ::
  "(SubgraphQuery \<Rightarrow> SubgraphResponse result) \<Rightarrow> nat \<Rightarrow> nat \<Rightarrow> nat \<Rightarrow> bool
     \<Rightarrow> Pool list result option"
where
  "queryOnePageForAllAvailablePoolsFromSubgraph querySubgraph blockNumber skp limit latestBlock =
     (case querySubgraph
             \<lparr>block = (if latestBlock then None else Some blockNumber),
              skip = skp, first = limit\<rparr> of
        Inl e \<Rightarrow> Some (Inl e)
      | Inr res \<Rightarrow>
          (case errors res of
             message # _ \<Rightarrow>
               if str_includes message ''missing block''
                  \<or> str_includes message ''not yet available''
               then queryOnePageForAllAvailablePoolsFromSubgraph
                      querySubgraph blockNumber skp limit True
               else Some (Inl (Error message))
           | [] \<Rightarrow>
               (case data_pools res of
                  None \<Rightarrow> Some (Inl TypeError)
                | Some pools \<Rightarrow> Some (Inr (map toPool pools)))))"

text \<open>
  \<^verbatim>\<open>queryAllAvailablePools\<close>: the first page, then the \<^verbatim>\<open>while\<close> loop, which asks for
  the next page as long as the last one was full (\<^verbatim>\<open>defaultPerPageLimit = 1000\<close>).
\<close>

definition defaultPerPageLimit :: nat where
  "defaultPerPageLimit = 1000"

partial_function (option) queryAllAvailablePools_loop ::
  "(SubgraphQuery \<Rightarrow> SubgraphResponse result) \<Rightarrow> nat \<Rightarrow> nat \<Rightarrow> Pool list \<Rightarrow> Pool list
     \<Rightarrow> Pool list result option"
where
  "queryAllAvailablePools_loop querySubgraph blockNumber skp pools currentPools =
     (if length currentPools = defaultPerPageLimit
      then (case queryOnePageForAllAvailablePoolsFromSubgraph querySubgraph blockNumber
                   (skp + defaultPerPageLimit) defaultPerPageLimit False of
              None \<Rightarrow> None
            | Some (Inl e) \<Rightarrow> Some (Inl e)
            | Some (Inr nextPools) \<Rightarrow>
                queryAllAvailablePools_loop querySubgraph blockNumber
                  (skp + defaultPerPageLimit) (pools @ nextPools) nextPools)
      else Some (Inr pools))"

definition queryAllAvailablePools ::
  "(SubgraphQuery \<Rightarrow> SubgraphResponse result) \<Rightarrow> nat \<Rightarrow> Pool list result option" where
  "queryAllAvailablePools querySubgraph blockNumber =
     (case queryOnePageForAllAvailablePoolsFromSubgraph querySubgraph blockNumber
             0 defaultPerPageLimit False of
        None \<Rightarrow> None
      | Some (Inl e) \<Rightarrow> Some (Inl e)
      | Some (Inr currentPools) \<Rightarrow>
          queryAllAvailablePools_loop querySubgraph blockNumber 0 ([] @ currentPools)
            currentPools)"

text \<open>\<^verbatim>\<open>NULL_ADDRESS\<close> is imported from the constants of the library: the zero address.\<close>

definition NULL_ADDRESS :: string where
  "NULL_ADDRESS = ''0x0000000000000000000000000000000000000000''"

definition getMockPoolsForTesting :: "Pool list" where
  "getMockPoolsForTesting =
     [\<lparr>poolAddress = ''0x82dbe18346a8656dbb5e76f74bf3ae279cc16b29'',
       token0 = ''0x4200000000000000000000000000000000000006'',
       token1 = ''0x833589fcd6edb6e08f4c7c32d4f71b54bda02913'',
       deployer = NULL_ADDRESS,
       tvlUSD = 283410.973\<rparr>,
      \<lparr>poolAddress = ''0x3f9b863ef4b295d6ba370215bcca3785fcc44f44'',
       token0 = ''0x4200000000000000000000000000000000000006'',
       token1 = ''0xcbb7c0000ab88b473b1f5afd9ef808440eed33bf'',
       deployer = NULL_ADDRESS,
       tvlUSD = 401457.372\<rparr>,
      \<lparr>poolAddress = ''0xd604cf300a4ae4345426df42ffb296aa35b4bef2'',
       token0 = ''0x50c5725949a6f0c72e6c4a641f24049a917db0cb'',
       token1 = ''0x833589fcd6edb6e08f4c7c32d4f71b54bda02913'',
       deployer = NULL_ADDRESS,
       tvlUSD = 206389.885\<rparr>]"

text \<open>
  \<^verbatim>\<open>initialize\<close>: the array \<^verbatim>\<open>this.pools\<close> after the call, given the array before it.
  The \<^verbatim>\<open>catch\<close> branch logs a warning and assigns the mock pools.
\<close>

definition initialize ::
  "(SubgraphQuery \<Rightarrow> SubgraphResponse result) \<Rightarrow> nat \<Rightarrow> Pool list \<Rightarrow> Pool list option" where
  "initialize querySubgraph blockNumber pools =
     (case queryAllAvailablePools querySubgraph blockNumber of
        None \<Rightarrow> None
      | Some (Inl e) \<Rightarrow> Some getMockPoolsForTesting
      | Some (Inr loaded) \<Rightarrow> Some loaded)"

text \<open>
  \<^verbatim>\<open>handleNewPool\<close> and \<^verbatim>\<open>handleNewCustomPool\<close>: the array after the handler ran, or
  the exception it raised. \<^verbatim>\<open>event.args.pool?.toLowerCase() || ''\<close> is the empty text when
  the field is missing.
\<close>

definition handleNewPool :: "LogDescription \<Rightarrow> Pool list \<Rightarrow> Pool list result" where
  "handleNewPool event pools =
     (case js_toLowerCase (args event ''token0'') of
        Inl e \<Rightarrow> Inl e
      | Inr tok0 \<Rightarrow>
     (case js_toLowerCase (args event ''token1'') of
        Inl e \<Rightarrow> Inl e
      | Inr tok1 \<Rightarrow>
     (case (case args event ''pool'' of None \<Rightarrow> Inr [] | Some v \<Rightarrow> js_toLowerCase (Some v)) of
        Inl e \<Rightarrow> Inl e
      | Inr addr \<Rightarrow>
          Inr (if addr \<noteq> []
               then pools @ [\<lparr>poolAddress = addr, token0 = tok0, token1 = tok1,
                               deployer = NULL_ADDRESS, tvlUSD = 0\<rparr>]
               else pools))))"

definition handleNewCustomPool :: "LogDescription \<Rightarrow> Pool list \<Rightarrow> Pool list result" where
  "handleNewCustomPool event pools =
     (case js_toLowerCase (args event ''token0'') of
        Inl e \<Rightarrow> Inl e
      | Inr tok0 \<Rightarrow>
     (case js_toLowerCase (args event ''token1'') of
        Inl e \<Rightarrow> Inl e
      | Inr tok1 \<Rightarrow>
     (case js_toLowerCase (args event ''deployer'') of
        Inl e \<Rightarrow> Inl e
      | Inr dep \<Rightarrow>
     (case (case args event ''pool'' of None \<Rightarrow> Inr [] | Some v \<Rightarrow> js_toLowerCase (Some v)) of
        Inl e \<Rightarrow> Inl e
      | Inr addr \<Rightarrow>
          Inr (if addr \<noteq> []
               then pools @ [\<lparr>poolAddress = addr, token0 = tok0, token1 = tok1,
                               deployer = dep, tvlUSD = 0\<rparr>]
               else pools)))))"

definition HydrexFiFactory_handlers ::
  "string \<rightharpoonup> (LogDescription \<Rightarrow> Pool list \<Rightarrow> Pool list result)" where
  "HydrexFiFactory_handlers = [''Pool'' \<mapsto> handleNewPool, ''CustomPool'' \<mapsto> handleNewCustomPool]"

text \<open>
  \<^verbatim>\<open>HydrexFiFactory.processLog\<close>: the returned \<^verbatim>\<open>FactoryState\<close> is always the empty
  object, so the result is the array \<^verbatim>\<open>this.pools\<close> after the call. Neither the decoder
  call nor the handler call is inside a \<^verbatim>\<open>try\<close>: an exception of either leaves the
  function.
\<close>

definition HydrexFiFactory_processLog ::
  "(Log \<Rightarrow> LogDescription result) \<Rightarrow> Pool list \<Rightarrow> Log \<Rightarrow> Pool list result" where
  "HydrexFiFactory_processLog logDecoder pools rawLog =
     (case logDecoder rawLog of
        Inl e \<Rightarrow> Inl e
      | Inr event \<Rightarrow>
          (case HydrexFiFactory_handlers (name event) of
             Some handler \<Rightarrow> handler event pools
           | None \<Rightarrow> Inr pools))"

text \<open>
  \<^verbatim>\<open>getAvailablePoolsForPair\<close>. \<^verbatim>\<open>wrapETH\<close> belongs to the configuration of the helper
  and is the argument \<open>wrap\<close>. \<^verbatim>\<open>filter\<close> builds a new array and \<^verbatim>\<open>sort\<close> sorts that one in
  place, so \<^verbatim>\<open>this.pools\<close> is not written: the function returns the sorted array together
  with the registry array as the call leaves it. \<open>matches_pair\<close> is the callback of
  \<^verbatim>\<open>filter\<close>.
\<close>

definition matches_pair :: "string \<Rightarrow> string \<Rightarrow> Pool \<Rightarrow> bool" where
  "matches_pair srcAddress destAddress pool =
     ((token0 pool = srcAddress \<and> token1 pool = destAddress)
      \<or> (token0 pool = destAddress \<and> token1 pool = srcAddress))"

definition getAvailablePoolsForPair ::
  "(string \<Rightarrow> string) \<Rightarrow> Pool list \<Rightarrow> string \<Rightarrow> string \<Rightarrow> nat \<Rightarrow> Pool list \<times> Pool list" where
  "getAvailablePoolsForPair wrap pools srcToken destToken blockNumber =
     (let srcAddress = toLowerCase (wrap srcToken);
          destAddress = toLowerCase (wrap destToken)
      in (array_sort
            (\<lambda>a b. let tvlDiff = tvlUSD b - tvlUSD a in if tvlDiff \<noteq> 0 then tvlDiff else 1)
            (filter (matches_pair srcAddress destAddress) pools),
          pools))"

section \<open>hydrex-fi.ts: pool identifiers\<close>

text \<open>
  \<^verbatim>\<open>_sortTokens\<close>: \<^verbatim>\<open>[srcAddress, destAddress].sort((a, b) => (a < b ? -1 : 1))\<close>.
  Strings are compared as JavaScript does, lexicographically by character code.
\<close>

definition sortTokens :: "string \<Rightarrow> string \<Rightarrow> string list" where
  "sortTokens srcAddress destAddress =
     array_sort (\<lambda>a b. if a < b then - 1 else 1) [srcAddress, destAddress]"

text \<open>
  \<^verbatim>\<open>getPoolIdentifier\<close>: the template \<^verbatim>\<open>${dexKey}_${tokenAddresses}_${deployerAddress}\<close>,
  with the exchange key \<open>dexKey\<close> of the instance as first argument.
\<close>

definition getPoolIdentifier :: "string \<Rightarrow> string \<Rightarrow> string \<Rightarrow> string \<Rightarrow> string" where
  "getPoolIdentifier dexKey srcAddress destAddress deployerAddress =
     (let tokenAddresses = join ''_'' (sortTokens srcAddress destAddress)
      in dexKey @ ''_'' @ tokenAddresses @ ''_'' @ deployerAddress)"

section \<open>hydrex-fi.ts: the quote sampler\<close>

text \<open>The types of the library that the sampler handles, with the fields it reads.\<close>

record Token =
  address :: string
  decimals :: nat

datatype SwapSide = SELL | BUY

record TransferFeeParams =
  srcFee :: nat
  destFee :: nat
  srcDexFee :: nat
  destDexFee :: nat

text \<open>\<^verbatim>\<open>DexParams\<close> and the configuration of the exchange on Base.\<close>

record DexParams =
  factory :: string
  quoter :: string
  router :: string
  subgraphURL :: string
  chunksCount :: nat

definition HydrexFiConfig :: DexParams where
  "HydrexFiConfig =
     \<lparr>factory = ''0x36077D39cdC65E1e3FB65810430E5b2c4D5fA29E'',
      quoter = ''0x08b46265643a5389529D6f6616FA4a0d66F13Fdb'',
      router = ''0x6f4bE24d7dC93b6ffcBAb3Fd0747c5817Cea3F9e'',
      subgraphURL = ''https://api.goldsky.com/api/public/project_cmafph25ltm5g01yv3vr7bsoe/subgraphs/analytics/v1.0.1/gn'',
      chunksCount = 10\<rparr>"

text \<open>
  One call of the batch, as \<^verbatim>\<open>getMultiCallData\<close> builds it. The call data is held as
  the function name and the arguments that \<^verbatim>\<open>encodeFunctionData\<close> encodes; the amount is
  the integer whose decimal text is passed.
\<close>

datatype QuoterFunction = quoteExactInputSingle | quoteExactOutputSingle

record MultiCallParams =
  target :: string
  gasLimit :: nat
  call_function :: QuoterFunction
  call_from :: string
  call_to :: string
  call_deployer :: string
  call_amount :: int

text \<open>One answer of the batch: whether the call succeeded and the decoded amount.\<close>

record MultiResult =
  success :: bool
  returnData :: int

text \<open>The result for one pool (\<^verbatim>\<open>PoolPrices<HydrexFiData>\<close>).\<close>

record PathEntry =
  tokenIn :: string
  tokenOut :: string
  path_deployer :: string

record HydrexFiData =
  feeOnTransfer :: bool
  path :: "PathEntry list"

record PoolPrices =
  prices :: "int list"
  unit :: "int option"
  data :: HydrexFiData
  poolIdentifiers :: "string list"
  exchange :: string
  gasCost :: nat
  poolAddresses :: "string list"

text \<open>
  What the sampler imports from the rest of the library and reaches through the helper:
  the wrapping of the native token (on a token and, in the registry, on an address), the
  two tests on the transfer fees, \<^verbatim>\<open>applyTransferFee\<close>, \<^verbatim>\<open>interpolate\<close>, the batched
  remote read \<^verbatim>\<open>multiWrapper.tryAggregate\<close>, which answers a list of calls with a list of
  results or raises, and four constants. They are arguments of the model.
\<close>

record Env =
  wrapETH :: "Token \<Rightarrow> Token"
  wrapETHAddress :: "string \<Rightarrow> string"
  isSrcTokenTransferFeeToBeExchanged :: "TransferFeeParams \<Rightarrow> bool"
  isDestTokenTransferFeeToBeExchanged :: "TransferFeeParams \<Rightarrow> bool"
  applyTransferFee :: "int list \<Rightarrow> SwapSide \<Rightarrow> nat \<Rightarrow> nat \<Rightarrow> int list"
  interpolate :: "int list \<Rightarrow> int list \<Rightarrow> int list \<Rightarrow> SwapSide \<Rightarrow> int list"
  tryAggregate :: "MultiCallParams list \<Rightarrow> MultiResult list result"
  SRC_TOKEN_DEX_TRANSFERS :: nat
  DEST_TOKEN_DEX_TRANSFERS :: nat
  HYDREX_FI_GAS_COST :: nat
  HYDREX_FI_QUOTE_GASLIMIT :: nat

text \<open>
  Modelled from the spec: \<^verbatim>\<open>getBigIntPow\<close> of the utilities of the library is missing
  from the sources at hand; the unit amount is "10^decimals of the relevant token".
\<close>

definition getBigIntPow :: "nat \<Rightarrow> int" where
  "getBigIntPow d = 10 ^ d"

definition getMultiCallData ::
  "Env \<Rightarrow> DexParams \<Rightarrow> string \<Rightarrow> string \<Rightarrow> string \<Rightarrow> int \<Rightarrow> bool \<Rightarrow> MultiCallParams" where
  "getMultiCallData env config from to dep amount isSELL =
     \<lparr>target = quoter config,
      gasLimit = HYDREX_FI_QUOTE_GASLIMIT env,
      call_function = (if isSELL then quoteExactInputSingle else quoteExactOutputSingle),
      call_from = from, call_to = to, call_deployer = dep, call_amount = amount\<rparr>"

text \<open>\<^verbatim>\<open>getMockPriceForTesting\<close>; the division of two \<^verbatim>\<open>bigint\<close>s truncates towards
  zero.\<close>

definition getMockPriceForTesting :: "int \<Rightarrow> bool \<Rightarrow> int" where
  "getMockPriceForTesting amount isSELL =
     (if amount = 0 then 0
      else if isSELL then (amount * 2500) sdiv (10 ^ 12)
      else (amount * (10 ^ 12)) sdiv 2500)"

text \<open>
  The sample amounts: \<^verbatim>\<open>[unitVolume].concat(Array.from(Array(chunksCount).keys()).map(
  i => amounts[(i + 1) * _width]))\<close> with \<^verbatim>\<open>_width = Math.floor(chunks / chunksCount)\<close>
  and \<^verbatim>\<open>chunks = amounts.length - 1\<close>. An entry is \<^verbatim>\<open>undefined\<close> (\<open>None\<close>) when the
  index is outside the requested vector, which happens for the empty vector: \<open>chunks\<close> is
  \<open>- 1\<close> then and so is the width. (For \<open>chunksCount = 0\<close> no index is computed.)
\<close>

definition chunkedAmounts :: "nat \<Rightarrow> int \<Rightarrow> int list \<Rightarrow> int option list" where
  "chunkedAmounts chunksCnt unitVolume amounts =
     (let chunks = int (length amounts) - 1;
          width = chunks div int chunksCnt
      in Some unitVolume
         # map (\<lambda>i. at_index amounts ((int i + 1) * width)) [0..<chunksCnt])"

definition amountsForQuote :: "Env \<Rightarrow> SwapSide \<Rightarrow> TransferFeeParams \<Rightarrow> int list \<Rightarrow> int list" where
  "amountsForQuote env side transferFees chunked =
     (if isSrcTokenTransferFeeToBeExchanged env transferFees
      then applyTransferFee env chunked side (srcDexFee transferFees)
             (SRC_TOKEN_DEX_TRANSFERS env)
      else chunked)"

text \<open>\<^verbatim>\<open>pools.flatMap(pool => amountsForQuote.map(amount => this.getMultiCallData(...)))\<close>.\<close>

definition quoteCalldata ::
  "Env \<Rightarrow> DexParams \<Rightarrow> Token \<Rightarrow> Token \<Rightarrow> bool \<Rightarrow> Pool list \<Rightarrow> int list
     \<Rightarrow> MultiCallParams list" where
  "quoteCalldata env config from to isSELL pools quoted =
     concat (map (\<lambda>pool. map (\<lambda>amount.
        getMultiCallData env config (address from) (address to) (deployer pool) amount isSELL)
        quoted) pools)"

text \<open>
  The first exception among a list of outcomes, or all the values: the callbacks of
  \<^verbatim>\<open>map\<close> run in order and the first one that raises ends the loop.
\<close>

fun collect :: "'a result list \<Rightarrow> 'a list result" where
  "collect [] = Inr []"
| "collect (Inl e # rs) = Inl e"
| "collect (Inr v # rs) = (case collect rs of Inl e \<Rightarrow> Inl e | Inr vs \<Rightarrow> Inr (v # vs))"

text \<open>
  \<^verbatim>\<open>_rates\<close> of one pool: for the sample \<open>i\<close>, \<^verbatim>\<open>res = results[offset + i]\<close>; reading
  \<^verbatim>\<open>res.success\<close> raises a \<^verbatim>\<open>TypeError\<close> when the batch has no result at that index.
\<close>

definition sampleRates ::
  "MultiResult list \<Rightarrow> bool \<Rightarrow> int list \<Rightarrow> bool \<Rightarrow> nat \<Rightarrow> int list result" where
  "sampleRates results allFailed chunked isSELL offset =
     collect (map (\<lambda>(i, amount).
        case at_index results (int (offset + i)) of
          None \<Rightarrow> Inl TypeError
        | Some res \<Rightarrow>
            Inr (if success res then returnData res
                 else if allFailed then getMockPriceForTesting amount isSELL
                 else 0))
        (enumerate 0 chunked))"

text \<open>The object returned for one pool, from its \<^verbatim>\<open>_rates\<close>.\<close>

definition poolPrices ::
  "Env \<Rightarrow> string \<Rightarrow> Token \<Rightarrow> Token \<Rightarrow> int list \<Rightarrow> SwapSide \<Rightarrow> TransferFeeParams
     \<Rightarrow> int list \<Rightarrow> Pool \<Rightarrow> int list \<Rightarrow> PoolPrices" where
  "poolPrices env dexKey from to amounts side transferFees chunked pool rates =
     (let ratesWithFee =
            (if isDestTokenTransferFeeToBeExchanged env transferFees
             then applyTransferFee env rates side (destDexFee transferFees)
                    (DEST_TOKEN_DEX_TRANSFERS env)
             else rates)
      in \<lparr>prices = interpolate env (tl chunked) (tl ratesWithFee) amounts side,
          unit = at_index ratesWithFee 0,
          data = \<lparr>feeOnTransfer = isSrcTokenTransferFeeToBeExchanged env transferFees,
                   path = [\<lparr>tokenIn = address from, tokenOut = address to,
                            path_deployer = deployer pool\<rparr>]\<rparr>,
          poolIdentifiers = [getPoolIdentifier dexKey (token0 pool) (token1 pool) (deployer pool)],
          exchange = dexKey,
          gasCost = HYDREX_FI_GAS_COST env,
          poolAddresses = [poolAddress pool]\<rparr>)"

text \<open>
  \<^verbatim>\<open>getPricingFromRpc\<close>. The first component is what the call returns (\<open>Inr None\<close> is
  \<^verbatim>\<open>null\<close>) or the exception it ends with; the second is the batch of remote calls it
  issued. An \<^verbatim>\<open>undefined\<close> sample amount raises a \<^verbatim>\<open>TypeError\<close> before the batch is
  sent: \<^verbatim>\<open>getMultiCallData\<close> calls \<^verbatim>\<open>amount.toString()\<close>, and arithmetic on
  \<^verbatim>\<open>undefined\<close> in the fee adjustment before it raises as well.
\<close>

definition getPricingFromRpc ::
  "Env \<Rightarrow> string \<Rightarrow> DexParams \<Rightarrow> Token \<Rightarrow> Token \<Rightarrow> int list \<Rightarrow> SwapSide \<Rightarrow> Pool list
     \<Rightarrow> TransferFeeParams \<Rightarrow> PoolPrices list option result \<times> MultiCallParams list" where
  "getPricingFromRpc env dexKey config from to amounts side pools transferFees =
     (if pools = [] then (Inr None, [])
      else
        let isSELL = (side = SELL);
            unitVolume = getBigIntPow (decimals (if isSELL then from else to))
        in case those (chunkedAmounts (chunksCount config) unitVolume amounts) of
             None \<Rightarrow> (Inl TypeError, [])
           | Some chunked \<Rightarrow>
               let quoted = amountsForQuote env side transferFees chunked;
                   calldata = quoteCalldata env config from to isSELL pools quoted
               in case tryAggregate env calldata of
                    Inl e \<Rightarrow> (Inl e, calldata)
                  | Inr results \<Rightarrow>
                      let allFailed = list_all (\<lambda>r. \<not> success r) results
                      in (case collect (map (\<lambda>(poolIndex, pool).
                                 case sampleRates results allFailed chunked isSELL
                                        (poolIndex * length quoted) of
                                   Inl e \<Rightarrow> Inl e
                                 | Inr rates \<Rightarrow>
                                     Inr (poolPrices env dexKey from to amounts side
                                            transferFees chunked pool rates))
                                 (enumerate 0 pools)) of
                            Inl e \<Rightarrow> (Inl e, calldata)
                          | Inr result \<Rightarrow> (Inr (Some result), calldata)))"

text \<open>
  \<^verbatim>\<open>getPricesVolume\<close>. \<open>getPricesVolume_try\<close> is the body of the \<^verbatim>\<open>try\<close> block, run
  on the registry array of the factory; \<^verbatim>\<open>catch\<close> logs the exception and returns
  \<^verbatim>\<open>null\<close>. \<open>limitPools\<close> is \<open>None\<close> when the argument is not given.
\<close>

definition getPricesVolume_try ::
  "Env \<Rightarrow> string \<Rightarrow> DexParams \<Rightarrow> Pool list \<Rightarrow> Token \<Rightarrow> Token \<Rightarrow> int list \<Rightarrow> SwapSide \<Rightarrow> nat
     \<Rightarrow> string list option \<Rightarrow> TransferFeeParams
     \<Rightarrow> PoolPrices list option result \<times> MultiCallParams list" where
  "getPricesVolume_try env dexKey config registry srcToken destToken amounts side blockNumber
       limitPools transferFees =
     (if isSrcTokenTransferFeeToBeExchanged env transferFees \<and> side = BUY then (Inr None, [])
      else
        let srcToken' = wrapETH env srcToken;
            destToken' = wrapETH env destToken;
            srcAddress = toLowerCase (address srcToken');
            destAddress = toLowerCase (address destToken')
        in if srcAddress = destAddress then (Inr None, [])
           else
             let found = fst (getAvailablePoolsForPair (wrapETHAddress env) registry
                                srcAddress destAddress blockNumber);
                 pools =
                   (case limitPools of
                      None \<Rightarrow> found
                    | Some limit \<Rightarrow>
                        if length limit > 0
                        then filter (\<lambda>pool.
                               getPoolIdentifier dexKey srcAddress destAddress (deployer pool)
                                 \<in> set limit) found
                        else found)
             in getPricingFromRpc env dexKey config srcToken' destToken' amounts side pools
                  transferFees)"

definition getPricesVolume ::
  "Env \<Rightarrow> string \<Rightarrow> DexParams \<Rightarrow> Pool list \<Rightarrow> Token \<Rightarrow> Token \<Rightarrow> int list \<Rightarrow> SwapSide \<Rightarrow> nat
     \<Rightarrow> string list option \<Rightarrow> TransferFeeParams
     \<Rightarrow> PoolPrices list option result \<times> MultiCallParams list" where
  "getPricesVolume env dexKey config registry srcToken destToken amounts side blockNumber
       limitPools transferFees =
     (case getPricesVolume_try env dexKey config registry srcToken destToken amounts side
             blockNumber limitPools transferFees of
        (Inl e, calls) \<Rightarrow> (Inr None, calls)
      | (Inr rpcPrice, calls) \<Rightarrow> (Inr rpcPrice, calls))"

text \<open>
  The sample amounts in the words of the specification, for comparison with
  \<open>chunkedAmounts\<close>: one unit amount, then \<open>chunksCnt\<close> entries of the requested vector
  at the indices \<open>(i + 1) * floor((len - 1) / chunksCnt)\<close>. (For a non-empty vector, where
  these indices are inside the vector.)
\<close>

definition spec_samples :: "nat \<Rightarrow> int \<Rightarrow> int list \<Rightarrow> int list" where
  "spec_samples chunksCnt unitVolume amounts =
     unitVolume
     # map (\<lambda>i. amounts ! ((i + 1) * ((length amounts - 1) div chunksCnt))) [0..<chunksCnt]"

text \<open>
  Modelled from the spec: \<^verbatim>\<open>interpolate\<close> of the utilities of the library is missing from
  the sources at hand. The specification describes a sample curve of (amount, output)
  pairs with a synthetic zero-amount point that maps to output zero and is never fetched,
  and an output for every requested amount by interpolation over the sampled curve, a
  requested amount out of range extrapolating from the nearest sampled segment. The
  model is the piecewise linear curve through the zero point and the samples, with the
  division of \<^verbatim>\<open>bigint\<close>s.
\<close>

fun interpolate_at :: "(int \<times> int) list \<Rightarrow> int \<Rightarrow> int" where
  "interpolate_at ((x1, y1) # (x2, y2) # curve) x =
     (if x \<le> x2 \<or> curve = [] then y1 + ((y2 - y1) * (x - x1)) sdiv (x2 - x1)
      else interpolate_at ((x2, y2) # curve) x)"
| "interpolate_at [(x1, y1)] x = y1"
| "interpolate_at [] x = 0"

definition interpolate_from_spec :: "int list \<Rightarrow> int list \<Rightarrow> int list \<Rightarrow> SwapSide \<Rightarrow> int list" where
  "interpolate_from_spec xs ys xPrime side = map (interpolate_at ((0, 0) # zip xs ys)) xPrime"

section \<open>Inputs used to run the definitions\<close>

text \<open>A pool state, a pool and a raw log.\<close>

definition example_state :: PoolState where
  "example_state =
     \<lparr>sqrtPriceX96 = 79228162514264337593543950336, liquidity = 1000, tick = Num 5,
      feeGrowthGlobal0X128 = 7, feeGrowthGlobal1X128 = 9,
      state_token0 = None, state_token1 = None, state_fee = None\<rparr>"

definition example_pool :: Pool where
  "example_pool =
     \<lparr>poolAddress = ''0xaaaa'', token0 = ''0x01'', token1 = ''0x02'',
      deployer = NULL_ADDRESS, tvlUSD = 10\<rparr>"

text \<open>A subgraph that answers every query with an error that is not about the block.\<close>

definition failing_subgraph :: "SubgraphQuery \<Rightarrow> SubgraphResponse result" where
  "failing_subgraph query = Inr \<lparr>errors = [''Internal server error''], data_pools = None\<rparr>"

text \<open>A decoder that cannot decode the log it is given.\<close>

definition failing_decoder :: "Log \<Rightarrow> LogDescription result" where
  "failing_decoder rawLog = Inl (Error ''no matching event'')"

definition example_log :: Log where
  "example_log =
     \<lparr>log_address = ''0x1234567890123456789012345678901234567890'',
      log_topics = [''0x1234''], log_data = ''0x''\<rparr>"

text \<open>Inputs used to run the sampler: the default transfer fees of the two entry points,
  two tokens of the integration test and its eleven amounts, the first mock pool, and an
  environment around a given remote reader.\<close>

definition defaultTransferFees :: TransferFeeParams where
  "defaultTransferFees = \<lparr>srcFee = 0, destFee = 0, srcDexFee = 0, destDexFee = 0\<rparr>"

definition WETH :: Token where
  "WETH = \<lparr>address = ''0x4200000000000000000000000000000000000006'', decimals = 18\<rparr>"

definition USDC :: Token where
  "USDC = \<lparr>address = ''0x833589fCD6eDb6E08f4c7C32D4f71b54bdA02913'', decimals = 6\<rparr>"

definition amountsForSell :: "int list" where
  "amountsForSell = map (\<lambda>k. k * 10 ^ 18) [0, 1, 2, 3, 4, 5, 6, 7, 8, 9, 10]"

definition wethUsdcPool :: Pool where
  "wethUsdcPool =
     \<lparr>poolAddress = ''0x82dbe18346a8656dbb5e76f74bf3ae279cc16b29'',
      token0 = ''0x4200000000000000000000000000000000000006'',
      token1 = ''0x833589fcd6edb6e08f4c7c32d4f71b54bda02913'',
      deployer = NULL_ADDRESS,
      tvlUSD = 283410.973\<rparr>"

definition example_env :: "(MultiCallParams list \<Rightarrow> MultiResult list result) \<Rightarrow> Env" where
  "example_env remote =
     \<lparr>wrapETH = (\<lambda>token. token),
      wrapETHAddress = (\<lambda>a. a),
      isSrcTokenTransferFeeToBeExchanged = (\<lambda>fees. srcFee fees \<noteq> 0 \<or> srcDexFee fees \<noteq> 0),
      isDestTokenTransferFeeToBeExchanged = (\<lambda>fees. destFee fees \<noteq> 0 \<or> destDexFee fees \<noteq> 0),
      applyTransferFee = (\<lambda>amounts side fee transfers.
         map (\<lambda>a. (a * (10000 - int fee)) sdiv 10000) amounts),
      interpolate = interpolate_from_spec,
      tryAggregate = remote,
      SRC_TOKEN_DEX_TRANSFERS = 1,
      DEST_TOKEN_DEX_TRANSFERS = 1,
      HYDREX_FI_GAS_COST = 180000,
      HYDREX_FI_QUOTE_GASLIMIT = 200000\<rparr>"

text \<open>Three remote readers: every call fails; the calls above five units fail and the
  others answer; the batch itself is rejected.\<close>

definition all_calls_fail :: "MultiCallParams list \<Rightarrow> MultiResult list result" where
  "all_calls_fail calls = Inr (map (\<lambda>c. \<lparr>success = False, returnData = 0\<rparr>) calls)"

definition large_calls_fail :: "MultiCallParams list \<Rightarrow> MultiResult list result" where
  "large_calls_fail calls =
     Inr (map (\<lambda>c. \<lparr>success = (call_amount c \<le> 5 * 10 ^ 18),
                    returnData = (call_amount c * 2400) sdiv 10 ^ 12\<rparr>) calls)"

definition batch_rejected :: "MultiCallParams list \<Rightarrow> MultiResult list result" where
  "batch_rejected calls = Inl (Error ''network error'')"

section \<open>Properties\<close>

subsection \<open>Decimal text\<close>

lemma digit_char_props:
  "d < 10 \<Longrightarrow> is_digit (digit_char d) \<and> digit_val (digit_char d) = d"
  unfolding is_digit_def digit_char_def digit_val_def by simp

lemma nat_to_string_digits:
  "nat_to_string n \<noteq> [] \<and> list_all is_digit (nat_to_string n)"
proof (induction n rule: nat_to_string.induct)
  case (1 n)
  show ?case
  proof (cases "n < 10")
    case True
    then show ?thesis by (simp add: nat_to_string.simps [of n] digit_char_props)
  next
    case False
    with 1 show ?thesis
      by (simp add: nat_to_string.simps [of n] digit_char_props)
  qed
qed

lemma nat_to_string_value:
  "foldl (\<lambda>a c. 10 * a + digit_val c) 0 (nat_to_string n) = n"
proof (induction n rule: nat_to_string.induct)
  case (1 n)
  show ?case
  proof (cases "n < 10")
    case True
    then show ?thesis by (simp add: nat_to_string.simps [of n] digit_char_props)
  next
    case False
    with 1 show ?thesis
      by (simp add: nat_to_string.simps [of n] digit_char_props)
  qed
qed

lemma parse_nat_to_string: "parse_nat (nat_to_string n) = Some n"
  by (simp add: parse_nat_def nat_to_string_digits nat_to_string_value)

lemma is_digit_not_sign: "is_digit c \<Longrightarrow> c \<noteq> CHR ''-'' \<and> c \<noteq> CHR ''+''"
  by (auto simp: is_digit_def)

lemma StringToBigInt_int_to_string: "StringToBigInt (int_to_string i) = Some i"
proof (cases "i < 0")
  case True
  then show ?thesis
    by (simp add: StringToBigInt_def int_to_string_def parse_nat_to_string)
next
  case False
  obtain c cs where cs: "nat_to_string (nat i) = c # cs"
    using nat_to_string_digits [of "nat i"] by (cases "nat_to_string (nat i)") auto
  then have "is_digit c"
    using nat_to_string_digits [of "nat i"] by simp
  then have "c \<noteq> CHR ''-''" "c \<noteq> CHR ''+''"
    using is_digit_not_sign by auto
  moreover have "parse_nat (c # cs) = Some (nat i)"
    using parse_nat_to_string [of "nat i"] cs by simp
  ultimately show ?thesis
    using False by (simp add: StringToBigInt_def int_to_string_def cs)
qed

lemma int_to_string_nonempty: "int_to_string i \<noteq> []"
  using nat_to_string_digits by (simp add: int_to_string_def)

lemma BigInt_int_to_string: "BigInt (int_to_string i) = Inr i"
  by (simp add: BigInt_def StringToBigInt_int_to_string)

lemma BigInt_zero_text: "BigInt ''0'' = Inr 0"
  by (simp add: BigInt_def StringToBigInt_def parse_nat_def is_digit_def digit_val_def)

subsection \<open>The pool-state event handlers\<close>

lemma liquidityDelta_BigNumber:
  "args event ''liquidity'' = Some (JSBigNumber d) \<Longrightarrow> liquidityDelta event = Inr d"
  by (simp add: liquidityDelta_def int_to_string_nonempty BigInt_int_to_string)

lemma liquidityDelta_absent:
  "args event ''liquidity'' = None \<Longrightarrow> liquidityDelta event = Inr 0"
  by (simp add: liquidityDelta_def BigInt_zero_text)

text \<open>
  Claim C9. For every pool state and every Burn event, \<open>handleBurn\<close> returns the state
  with \<open>liquidity\<close> set to the prior liquidity minus the liquidity delta \<open>d\<close> of the
  event (the integer that the payload field carries), an exact subtraction of unbounded
  integers with no clamp and no check, and every other field as it was; the stored
  liquidity is negative whenever \<open>d\<close> exceeds the prior liquidity.
\<close>

theorem handleBurn_exact_subtraction:
  "(args event ''liquidity'' = Some (JSBigNumber d) \<longrightarrow> liquidityDelta event = Inr d)
   \<and> (liquidityDelta event = Inr d \<longrightarrow>
        handleBurn event state rawLog = Some (state\<lparr>liquidity := liquidity state - d\<rparr>)
        \<and> (liquidity state < d \<longrightarrow>
             (\<exists>s. handleBurn event state rawLog = Some s \<and> liquidity s < 0)))"
  by (simp add: handleBurn_def liquidityDelta_BigNumber)

theorem handleBurn_exact_subtraction_witness:
  "args \<lparr>name = ''Burn'', args = [''liquidity'' \<mapsto> JSBigNumber 1500]\<rparr> ''liquidity''
     = Some (JSBigNumber 1500)
   \<and> liquidityDelta \<lparr>name = ''Burn'', args = [''liquidity'' \<mapsto> JSBigNumber 1500]\<rparr>
       = Inr 1500
   \<and> liquidity example_state < 1500
   \<and> handleBurn \<lparr>name = ''Burn'', args = [''liquidity'' \<mapsto> JSBigNumber 1500]\<rparr>
        example_state example_log
     = Some (example_state\<lparr>liquidity := - 500\<rparr>)
   \<and> (\<exists>s. handleBurn \<lparr>name = ''Burn'', args = [''liquidity'' \<mapsto> JSBigNumber 1500]\<rparr>
              example_state example_log = Some s
          \<and> liquidity s < 0)"
  using handleBurn_exact_subtraction
    [of "\<lparr>name = ''Burn'', args = [''liquidity'' \<mapsto> JSBigNumber 1500]\<rparr>" 1500
        example_state example_log]
  by (simp add: example_state_def)

lemma handleBurn_absent_delta:
  "args event ''liquidity'' = None \<Longrightarrow> handleBurn event state rawLog = Some state"
  by (simp add: handleBurn_def liquidityDelta_absent)

lemma handleSwap_keeps_liquidity_and_fee_growth:
  "handleSwap event state rawLog = Some s \<Longrightarrow>
     liquidity s = liquidity state
     \<and> feeGrowthGlobal0X128 s = feeGrowthGlobal0X128 state
     \<and> feeGrowthGlobal1X128 s = feeGrowthGlobal1X128 state"
  by (auto simp: handleSwap_def split: sum.splits)

lemma handleSwap_nonzero_tick:
  assumes "args event ''sqrtPriceX96'' = Some (JSBigNumber p)"
    and "args event ''tick'' = Some (JSNumber (Num t))" and "t \<noteq> 0"
  shows "handleSwap event state rawLog = Some (state\<lparr>sqrtPriceX96 := p, tick := Num t\<rparr>)"
  using assms by (simp add: handleSwap_def int_to_string_nonempty BigInt_int_to_string)

lemma handleSwap_absent_fields:
  assumes "args event ''sqrtPriceX96'' = None" and "args event ''tick'' = None"
  shows "handleSwap event state rawLog = Some state"
  using assms by (simp add: handleSwap_def)

lemma handleSwap_malformed_price:
  assumes "args event ''sqrtPriceX96'' = Some (JSString s)" and "s \<noteq> []"
    and "StringToBigInt s = None"
  shows "handleSwap event state rawLog = Some state"
  using assms by (simp add: handleSwap_def BigInt_def)

lemma handleSwap_malformed_tick:
  assumes "args event ''sqrtPriceX96'' = None"
    and "args event ''tick'' = Some (JSString s)" and "s \<noteq> []"
    and "StringToBigInt s = None"
  shows "handleSwap event state rawLog = Some (state\<lparr>tick := NaN\<rparr>)"
  using assms by (simp add: handleSwap_def)

text \<open>
  Claim C8. A Swap event is to overwrite \<open>sqrtPriceX96\<close> and \<open>tick\<close> with the values of
  its payload, a field keeping its prior value only when the payload lacks it or carries
  it malformed. The code run on a Swap event whose payload carries the price
  \<open>4295128739\<close> and the tick \<open>0\<close>, from a state whose tick is \<open>5\<close>: the price is
  overwritten, the tick is still \<open>5\<close>, since \<^verbatim>\<open>event.args.tick || state.tick\<close> takes the
  number \<open>0\<close> for a missing field.
\<close>

theorem handleSwap_zero_tick_keeps_prior_tick:
  "handleSwap
     \<lparr>name = ''Swap'',
      args = [''sqrtPriceX96'' \<mapsto> JSBigNumber 4295128739, ''tick'' \<mapsto> JSNumber (Num 0)]\<rparr>
     example_state example_log
   = Some (example_state\<lparr>sqrtPriceX96 := 4295128739, tick := Num 5\<rparr>)"
  by (simp add: handleSwap_def example_state_def int_to_string_nonempty BigInt_int_to_string)

subsection \<open>Log processing\<close>

lemma HydrexFiEventPool_processLog_undecodable:
  "logDecoder rawLog = Inl e \<Longrightarrow> HydrexFiEventPool_processLog logDecoder state rawLog = None"
  by (simp add: HydrexFiEventPool_processLog_def)

lemma HydrexFiEventPool_processLog_unrecognized:
  "logDecoder rawLog = Inr event \<Longrightarrow> name event \<notin> {''Swap'', ''Mint'', ''Burn'', ''Collect''}
     \<Longrightarrow> HydrexFiEventPool_processLog logDecoder state rawLog = None"
  by (simp add: HydrexFiEventPool_processLog_def handlers_def)

lemma HydrexFiFactory_processLog_unrecognized:
  "logDecoder rawLog = Inr event \<Longrightarrow> name event \<notin> {''Pool'', ''CustomPool''}
     \<Longrightarrow> HydrexFiFactory_processLog logDecoder pools rawLog = Inr pools"
  by (simp add: HydrexFiFactory_processLog_def HydrexFiFactory_handlers_def)

lemma HydrexFiFactory_processLog_undecodable:
  "logDecoder rawLog = Inl e \<Longrightarrow> HydrexFiFactory_processLog logDecoder pools rawLog = Inl e"
  by (simp add: HydrexFiFactory_processLog_def)

text \<open>
  Claim C7. No decode exception is to leave log processing, in the pool-state subscriber
  and in the factory subscriber alike. The pool-state subscriber answers \<^verbatim>\<open>null\<close> to a
  log its decoder rejects; the factory subscriber, run on the same log with the same
  decoder, ends with the exception of the decoder.
\<close>

theorem HydrexFiFactory_processLog_decode_exception_escapes:
  "HydrexFiEventPool_processLog failing_decoder example_state example_log = None
   \<and> HydrexFiFactory_processLog failing_decoder [example_pool] example_log
       = Inl (Error ''no matching event'')"
  by (simp add: HydrexFiEventPool_processLog_def HydrexFiFactory_processLog_def
        failing_decoder_def)

subsection \<open>The registry\<close>

lemma not_block_unavailable:
  "\<not> str_includes ''Internal server error'' ''missing block''"
  "\<not> str_includes ''Internal server error'' ''not yet available''"
  unfolding str_includes_def by code_simp+

lemma failing_subgraph_page:
  "queryOnePageForAllAvailablePoolsFromSubgraph failing_subgraph blockNumber skp limit latestBlock
     = Some (Inl (Error ''Internal server error''))"
  by (subst queryOnePageForAllAvailablePoolsFromSubgraph.simps)
     (simp add: failing_subgraph_def not_block_unavailable)

lemma failing_subgraph_all:
  "queryAllAvailablePools failing_subgraph blockNumber
     = Some (Inl (Error ''Internal server error''))"
  by (simp add: queryAllAvailablePools_def failing_subgraph_page)

lemma first_page_error_aborts_load:
  assumes "querySubgraph \<lparr>block = Some blockNumber, skip = 0, first = defaultPerPageLimit\<rparr>
             = Inr res"
    and "errors res = message # rest"
    and "\<not> str_includes message ''missing block''"
    and "\<not> str_includes message ''not yet available''"
  shows "queryAllAvailablePools querySubgraph blockNumber = Some (Inl (Error message))"
  using assms
  by (simp add: queryAllAvailablePools_def
        queryOnePageForAllAvailablePoolsFromSubgraph.simps
          [of querySubgraph blockNumber 0 defaultPerPageLimit False])

text \<open>
  Claim C4, as the code has it. When the paginated bulk load of \<open>initialize\<close> fails, with
  any exception, a remote error other than the block-unavailability condition included,
  \<open>initialize\<close> does not abort: it returns with the registry's pool set replaced by the
  fixed list of three mock pools, whatever the set held before.
\<close>

theorem initialize_failure_installs_mock_pools:
  "queryAllAvailablePools querySubgraph blockNumber = Some (Inl e)
     \<Longrightarrow> initialize querySubgraph blockNumber pools = Some getMockPoolsForTesting"
  by (simp add: initialize_def)

theorem initialize_failure_installs_mock_pools_witness:
  "queryAllAvailablePools failing_subgraph 18000000
     = Some (Inl (Error ''Internal server error''))
   \<and> initialize failing_subgraph 18000000 [example_pool] = Some getMockPoolsForTesting"
  using initialize_failure_installs_mock_pools
          [of failing_subgraph 18000000 "Error ''Internal server error''" "[example_pool]"]
        failing_subgraph_all [of 18000000]
  by simp

text \<open>
  Claim C4, as stated, fails: the subgraph answers with an error that is not about the
  block, the bulk load raises, and the registry that held one pool does not hold that
  pool set afterwards.
\<close>

theorem initialize_failure_overwrites_registry:
  "queryAllAvailablePools failing_subgraph 18000000
     = Some (Inl (Error ''Internal server error''))
   \<and> initialize failing_subgraph 18000000 [example_pool] \<noteq> Some [example_pool]"
  by (simp add: failing_subgraph_all initialize_def getMockPoolsForTesting_def)

subsection \<open>Sorting with a callback\<close>

lemma array_sort_snoc: "array_sort cmp (xs @ [x]) = insert_by cmp x (array_sort cmp xs)"
  by (simp add: array_sort_def)

lemma array_sort_Nil: "array_sort cmp [] = []"
  by (simp add: array_sort_def)

lemma mset_insert_by: "mset (insert_by cmp x ys) = add_mset x (mset ys)"
  by (induction ys) auto

lemma mset_array_sort: "mset (array_sort cmp xs) = mset xs"
  by (induction xs rule: rev_induct) (simp_all add: array_sort_Nil array_sort_snoc mset_insert_by)

lemma set_insert_by: "set (insert_by cmp x ys) = insert x (set ys)"
  by (induction ys) auto

lemma sorted_insert_by:
  fixes key :: "'a \<Rightarrow> 'k::linorder"
  assumes "\<And>a b. (cmp a b < 0) = (key a < key b)"
  shows "sorted (map key ys) \<Longrightarrow> sorted (map key (insert_by cmp x ys))"
  using assms by (induction ys) (auto simp: set_insert_by)

lemma filter_insert_by:
  fixes key :: "'a \<Rightarrow> 'k::linorder"
  assumes "\<And>a b. (cmp a b < 0) = (key a < key b)"
  shows "sorted (map key ys) \<Longrightarrow>
    filter (\<lambda>y. key y = k) (insert_by cmp x ys)
      = filter (\<lambda>y. key y = k) ys @ (if key x = k then [x] else [])"
proof (induction ys)
  case Nil
  then show ?case by simp
next
  case (Cons y ys)
  show ?case
  proof (cases "cmp x y < 0")
    case True
    then have lt: "key x < key y" using assms by simp
    have "filter (\<lambda>y. key y = key x) (y # ys) = []"
      using Cons.prems lt by (auto simp: filter_empty_conv)
    with True show ?thesis by auto
  next
    case False
    with Cons show ?thesis by auto
  qed
qed

lemma sorted_array_sort:
  fixes key :: "'a \<Rightarrow> 'k::linorder"
  assumes "\<And>a b. (cmp a b < 0) = (key a < key b)"
  shows "sorted (map key (array_sort cmp xs))"
  by (induction xs rule: rev_induct)
     (simp_all add: array_sort_Nil array_sort_snoc sorted_insert_by [OF assms])

lemma stable_array_sort:
  fixes key :: "'a \<Rightarrow> 'k::linorder"
  assumes "\<And>a b. (cmp a b < 0) = (key a < key b)"
  shows "filter (\<lambda>y. key y = k) (array_sort cmp xs) = filter (\<lambda>y. key y = k) xs"
  by (induction xs rule: rev_induct)
     (simp_all add: array_sort_Nil array_sort_snoc filter_insert_by [OF assms]
        sorted_array_sort [OF assms])

subsection \<open>Pair lookup\<close>

lemma tvl_callback:
  "((let tvlDiff = tvlUSD b - tvlUSD a in if tvlDiff \<noteq> 0 then tvlDiff else 1) < 0)
     = (- tvlUSD a < - tvlUSD b)"
  by (auto simp: Let_def)

lemma getAvailablePoolsForPair_eq:
  "fst (getAvailablePoolsForPair wrap pools srcToken destToken blockNumber) =
     array_sort (\<lambda>a b. let tvlDiff = tvlUSD b - tvlUSD a in if tvlDiff \<noteq> 0 then tvlDiff else 1)
       (filter (matches_pair (toLowerCase (wrap srcToken)) (toLowerCase (wrap destToken)))
          pools)"
  by (simp add: getAvailablePoolsForPair_def Let_def)

text \<open>
  Claim C5. \<open>getAvailablePoolsForPair tokenA tokenB blockHeight\<close> returns exactly the
  known pools whose \<open>(token0, token1)\<close> is \<open>(a, b)\<close> or \<open>(b, a)\<close>, for \<open>a\<close> and \<open>b\<close> the
  two (wrapped, lower-cased) addresses, each as often as the registry holds it; the list
  is sorted by
  descending TVL; pools of equal TVL keep the order in which the registry stores them (the
  list is the stable sort of the matching pools by descending TVL); the call leaves the
  registry as it was, so a second call with no bulk load or event in between returns the
  identical list.
\<close>

theorem getAvailablePoolsForPair_sorted_stable:
  "(let found = fst (getAvailablePoolsForPair wrap pools tokenA tokenB blockHeight);
        a = toLowerCase (wrap tokenA);
        b = toLowerCase (wrap tokenB);
        matching = filter (\<lambda>pool. (token0 pool = a \<and> token1 pool = b)
                                  \<or> (token0 pool = b \<and> token1 pool = a)) pools
    in mset found = mset matching
       \<and> set found = {pool \<in> set pools. (token0 pool = a \<and> token1 pool = b)
                                        \<or> (token0 pool = b \<and> token1 pool = a)}
       \<and> sorted_wrt (\<lambda>p q. tvlUSD p \<ge> tvlUSD q) found
       \<and> (\<forall>t. filter (\<lambda>p. tvlUSD p = t) found = filter (\<lambda>p. tvlUSD p = t) matching)
       \<and> found = sort_key (\<lambda>p. - tvlUSD p) matching
       \<and> getAvailablePoolsForPair wrap pools tokenA tokenB blockHeight = (found, pools)
       \<and> fst (getAvailablePoolsForPair wrap
                 (snd (getAvailablePoolsForPair wrap pools tokenA tokenB blockHeight))
                 tokenA tokenB blockHeight) = found)"
proof -
  let ?found = "fst (getAvailablePoolsForPair wrap pools tokenA tokenB blockHeight)"
  let ?a = "toLowerCase (wrap tokenA)"
  let ?b = "toLowerCase (wrap tokenB)"
  let ?matching = "filter (\<lambda>pool. (token0 pool = ?a \<and> token1 pool = ?b)
                                 \<or> (token0 pool = ?b \<and> token1 pool = ?a)) pools"
  let ?cmp = "\<lambda>a b. let tvlDiff = tvlUSD b - tvlUSD a
                     in if tvlDiff \<noteq> 0 then tvlDiff else (1::real)"
  let ?key = "\<lambda>p. - tvlUSD p"
  have cb: "\<And>a b. (?cmp a b < 0) = (?key a < ?key b)"
    by (rule tvl_callback)
  have callback: "matches_pair ?a ?b
      = (\<lambda>pool. (token0 pool = ?a \<and> token1 pool = ?b)
               \<or> (token0 pool = ?b \<and> token1 pool = ?a))"
    by (simp add: fun_eq_iff matches_pair_def)
  have f: "?found = array_sort ?cmp ?matching"
    using getAvailablePoolsForPair_eq [of wrap pools tokenA tokenB blockHeight]
    unfolding callback .
  have m: "mset ?found = mset ?matching"
    unfolding f by (rule mset_array_sort)
  have members: "set ?found = {pool \<in> set pools. (token0 pool = ?a \<and> token1 pool = ?b)
                                        \<or> (token0 pool = ?b \<and> token1 pool = ?a)}"
    using mset_eq_setD [OF m] by simp
  have s: "sorted (map ?key ?found)"
    unfolding f by (rule sorted_array_sort [OF cb])
  have st: "filter (\<lambda>p. ?key p = k) ?found = filter (\<lambda>p. ?key p = k) ?matching" for k
    unfolding f by (rule stable_array_sort [OF cb])
  have s': "sorted_wrt (\<lambda>p q. tvlUSD p \<ge> tvlUSD q) ?found"
    using s by (simp add: sorted_map)
  have st': "filter (\<lambda>p. tvlUSD p = t) ?found = filter (\<lambda>p. tvlUSD p = t) ?matching" for t
    using st [of "- t"] by simp
  have sk: "?found = sort_key ?key ?matching"
  proof (rule properties_for_sort_key [symmetric])
    show "mset ?found = mset ?matching" by (rule m)
    show "sorted (map ?key ?found)" by (rule s)
    show "filter (\<lambda>x. ?key k = ?key x) ?found = filter (\<lambda>x. ?key k = ?key x) ?matching" for k
      using st' [of "tvlUSD k"] by (simp add: eq_commute)
  qed
  have unchanged:
    "snd (getAvailablePoolsForPair wrap pools tokenA tokenB blockHeight) = pools"
    by (simp add: getAvailablePoolsForPair_def Let_def)
  have pair: "getAvailablePoolsForPair wrap pools tokenA tokenB blockHeight = (?found, pools)"
    using unchanged by (simp add: prod_eq_iff)
  have again: "fst (getAvailablePoolsForPair wrap
                 (snd (getAvailablePoolsForPair wrap pools tokenA tokenB blockHeight))
                 tokenA tokenB blockHeight) = ?found"
    by (simp only: unchanged)
  show ?thesis
    unfolding Let_def
    by (intro conjI allI) (rule m members s' st' sk pair again)+
qed

text \<open>
  The lookup run on a registry of four pools, two of them with equal TVL: the pool of
  the other pair is left out, the pool with the larger TVL comes first although it is
  stored last, and the two pools of equal TVL follow in the order of the registry.
\<close>

lemma example_pair_lowered:
  "toLowerCase ''0x01'' = ''0x01''" "toLowerCase ''0X02'' = ''0x02''"
  by code_simp+

lemma getAvailablePoolsForPair_ties_keep_stored_order:
  "fst (getAvailablePoolsForPair (\<lambda>a. a)
          [example_pool\<lparr>poolAddress := ''0xbbbb'', tvlUSD := 0\<rparr>,
           wethUsdcPool,
           example_pool\<lparr>poolAddress := ''0xcccc'', tvlUSD := 0,
                          token0 := ''0x02'', token1 := ''0x01''\<rparr>,
           example_pool]
          ''0x01'' ''0X02'' 18000000)
   = [example_pool,
      example_pool\<lparr>poolAddress := ''0xbbbb'', tvlUSD := 0\<rparr>,
      example_pool\<lparr>poolAddress := ''0xcccc'', tvlUSD := 0,
                     token0 := ''0x02'', token1 := ''0x01''\<rparr>]"
  by (simp add: getAvailablePoolsForPair_def Let_def example_pair_lowered matches_pair_def
        example_pool_def wethUsdcPool_def array_sort_def)

subsection \<open>Pool identifiers\<close>

lemma sortTokens_eq:
  "sortTokens a b = (if b < a then [b, a] else [a, b])"
  by (simp add: sortTokens_def array_sort_def)

lemma sortTokens_commute: "sortTokens a b = sortTokens b a"
  by (auto simp: sortTokens_eq)

text \<open>
  Claim C10. For all token addresses \<open>a\<close> and \<open>b\<close> and every deployer address \<open>d\<close>,
  the identifier built from \<open>(a, b, d)\<close> is the identifier built from \<open>(b, a, d)\<close>:
  the two token addresses are sorted before they are joined, so the identifier of a pool
  does not depend on the direction of the trade.
\<close>

theorem getPoolIdentifier_direction_independent:
  "getPoolIdentifier dexKey a b d = getPoolIdentifier dexKey b a d"
  by (simp add: getPoolIdentifier_def sortTokens_commute)

subsection \<open>The quote sampler\<close>

lemma those_map_Some: "those (map (\<lambda>x. Some (f x)) xs) = Some (map f xs)"
  by (induction xs) simp_all

lemma those_Cons_Some: "those (Some x # xs) = map_option ((#) x) (those xs)"
  by simp

lemma collect_map_Inr: "collect (map (\<lambda>x. Inr (f x)) xs) = Inr (map f xs)"
  by (induction xs) simp_all

lemma collect_all_Inr:
  "(\<And>x. x \<in> set xs \<Longrightarrow> g x = Inr (f x)) \<Longrightarrow> collect (map g xs) = Inr (map f xs)"
  by (induction xs) simp_all

lemma sample_index_in_range:
  assumes "amounts \<noteq> []" and "i < c"
  shows "(i + 1) * ((length amounts - 1) div c) < length amounts"
proof -
  have "(i + 1) * ((length amounts - 1) div c) \<le> c * ((length amounts - 1) div c)"
    using assms(2) by (intro mult_le_mono1) simp
  also have "\<dots> \<le> length amounts - 1"
    by simp
  also have "\<dots> < length amounts"
    using assms(1) by simp
  finally show ?thesis .
qed

lemma at_index_nat: "n < length xs \<Longrightarrow> at_index xs (int n) = Some (xs ! n)"
  by (simp add: at_index_def)

lemma at_index_sample:
  assumes "amounts \<noteq> []" and "i < c"
  shows "at_index amounts ((int i + 1) * ((int (length amounts) - 1) div int c))
           = Some (amounts ! ((i + 1) * ((length amounts - 1) div c)))"
proof -
  define n where "n = (i + 1) * ((length amounts - 1) div c)"
  have len: "int (length amounts) - 1 = int (length amounts - 1)"
    using assms(1) by (cases amounts) simp_all
  have eq: "(int i + 1) * ((int (length amounts) - 1) div int c) = int n"
    unfolding len n_def by (simp only: of_nat_mult of_nat_add of_nat_1 zdiv_int)
  have "n < length amounts"
    unfolding n_def by (rule sample_index_in_range [OF assms])
  then show ?thesis
    unfolding eq n_def [symmetric] by (rule at_index_nat)
qed

lemma chunkedAmounts_defined:
  assumes "amounts \<noteq> []"
  shows "those (chunkedAmounts c unitVolume amounts) = Some (spec_samples c unitVolume amounts)"
proof -
  have "map (\<lambda>i. at_index amounts ((int i + 1) * ((int (length amounts) - 1) div int c))) [0..<c]
          = map (\<lambda>i. Some (amounts ! ((i + 1) * ((length amounts - 1) div c)))) [0..<c]"
    using at_index_sample [OF assms] by simp
  then show ?thesis
    by (simp only: chunkedAmounts_def Let_def spec_samples_def those_Cons_Some those_map_Some
          option.map)
qed

lemma chunkedAmounts_empty:
  assumes "0 < c"
  shows "those (chunkedAmounts c unitVolume []) = None"
proof -
  have "[0..<c] = 0 # [Suc 0..<c]"
    using assms by (simp add: upt_conv_Cons)
  then show ?thesis
    by (simp add: chunkedAmounts_def Let_def at_index_def)
qed

lemma sampleRates_in_range:
  assumes "offset + length chunked \<le> length results"
  shows "sampleRates results allFailed chunked isSELL offset =
    Inr (map (\<lambda>(i, amount).
            if success (results ! (offset + i)) then returnData (results ! (offset + i))
            else if allFailed then getMockPriceForTesting amount isSELL else 0)
          (enumerate 0 chunked))"
  unfolding sampleRates_def
proof (rule collect_all_Inr)
  fix x assume xin: "x \<in> set (enumerate 0 chunked)"
  obtain i amount where x: "x = (i, amount)"
    by (cases x)
  have i: "i < length chunked"
    using xin by (simp add: x in_set_enumerate_eq)
  have "at_index results (int (offset + i)) = Some (results ! (offset + i))"
    using assms i by (intro at_index_nat) simp
  then show "(case x of (i, amount) \<Rightarrow>
            case at_index results (int (offset + i)) of
              None \<Rightarrow> Inl TypeError
            | Some res \<Rightarrow>
                Inr (if success res then returnData res
                     else if allFailed then getMockPriceForTesting amount isSELL else 0))
          = Inr (case x of (i, amount) \<Rightarrow>
              if success (results ! (offset + i)) then returnData (results ! (offset + i))
              else if allFailed then getMockPriceForTesting amount isSELL else 0)"
    by (simp add: x)
qed

lemma sampleRates_all_failed:
  assumes "offset + length chunked \<le> length results"
    and "list_all (\<lambda>r. \<not> success r) results"
  shows "sampleRates results True chunked isSELL offset =
    Inr (map (\<lambda>amount. getMockPriceForTesting amount isSELL) chunked)"
proof -
  have "\<not> success (results ! (offset + i))" if "i < length chunked" for i
    using assms that by (simp add: list_all_length)
  then have "map (\<lambda>(i, amount).
            if success (results ! (offset + i)) then returnData (results ! (offset + i))
            else if True then getMockPriceForTesting amount isSELL else 0)
          (enumerate 0 chunked)
        = map (\<lambda>(i, amount). getMockPriceForTesting amount isSELL) (enumerate 0 chunked)"
    by (auto simp: in_set_enumerate_eq)
  also have "\<dots> = map (\<lambda>amount. getMockPriceForTesting amount isSELL) (map snd (enumerate 0 chunked))"
    by (simp add: case_prod_unfold o_def del: map_snd_enumerate)
  finally show ?thesis
    using sampleRates_in_range [OF assms(1), of True isSELL] by simp
qed

lemma sampleRates_some_succeeded:
  assumes "offset + length chunked \<le> length results"
  shows "sampleRates results False chunked isSELL offset =
    Inr (map (\<lambda>i. if success (results ! (offset + i)) then returnData (results ! (offset + i))
                   else 0) [0..<length chunked])"
proof -
  have "map (\<lambda>(i, amount).
            if success (results ! (offset + i)) then returnData (results ! (offset + i))
            else if False then getMockPriceForTesting amount isSELL else 0)
          (enumerate 0 chunked)
        = map (\<lambda>i. if success (results ! (offset + i)) then returnData (results ! (offset + i))
                     else 0) (map fst (enumerate 0 chunked))"
    by (simp add: case_prod_unfold o_def del: map_fst_enumerate)
  then show ?thesis
    using sampleRates_in_range [OF assms, of False isSELL] by simp
qed

lemma offset_in_range:
  assumes "k < length pools" and "length results = length pools * n"
  shows "k * n + n \<le> length results"
proof -
  have "k * n + n = Suc k * n" by simp
  also have "\<dots> \<le> length pools * n"
    using assms(1) by (intro mult_le_mono1) simp
  finally show ?thesis using assms(2) by simp
qed

lemma getPricingFromRpc_unfold:
  assumes "pools \<noteq> []"
    and "those (chunkedAmounts (chunksCount config)
                 (getBigIntPow (decimals (if side = SELL then from else to))) amounts)
           = Some chunked"
    and "tryAggregate env (quoteCalldata env config from to (side = SELL) pools
                             (amountsForQuote env side transferFees chunked)) = Inr results"
  shows "fst (getPricingFromRpc env dexKey config from to amounts side pools transferFees) =
     (case collect (map (\<lambda>(poolIndex, pool).
             case sampleRates results (list_all (\<lambda>r. \<not> success r) results) chunked
                    (side = SELL)
                    (poolIndex * length (amountsForQuote env side transferFees chunked)) of
               Inl e \<Rightarrow> Inl e
             | Inr rates \<Rightarrow>
                 Inr (poolPrices env dexKey from to amounts side transferFees chunked pool rates))
             (enumerate 0 pools)) of
        Inl e \<Rightarrow> Inl e
      | Inr result \<Rightarrow> Inr (Some result))"
  using assms by (simp add: getPricingFromRpc_def Let_def split: sum.splits)

text \<open>
  Claim C1. Take a call of \<open>getPricingFromRpc\<close> that sends its batch (there is a
  candidate pool and every sample amount is defined) and receives one result per call.
  If every call of the batch failed, the call returns a non-null result in which the
  rate of every sample of every pool is the fixed linear approximation
  \<open>getMockPriceForTesting\<close> of the sample amount. If not every call failed, the call
  returns a non-null result in which the rate of a sample is the returned value when its
  call succeeded and zero when its call failed. In both cases the prices of a pool are
  the interpolation of its rates (after the destination fee) over the sample amounts.
\<close>

theorem getPricingFromRpc_failure_policy:
  assumes "pools \<noteq> []"
    and "those (chunkedAmounts (chunksCount config)
                 (getBigIntPow (decimals (if side = SELL then from else to))) amounts)
           = Some chunked"
    and "length (amountsForQuote env side transferFees chunked) = length chunked"
    and "tryAggregate env (quoteCalldata env config from to (side = SELL) pools
                             (amountsForQuote env side transferFees chunked)) = Inr results"
    and "length results = length pools * length chunked"
  shows "(list_all (\<lambda>r. \<not> success r) results \<longrightarrow>
           fst (getPricingFromRpc env dexKey config from to amounts side pools transferFees) =
             Inr (Some (map (\<lambda>pool.
               poolPrices env dexKey from to amounts side transferFees chunked pool
                 (map (\<lambda>amount. getMockPriceForTesting amount (side = SELL)) chunked))
               pools)))
       \<and> (\<not> list_all (\<lambda>r. \<not> success r) results \<longrightarrow>
           fst (getPricingFromRpc env dexKey config from to amounts side pools transferFees) =
             Inr (Some (map (\<lambda>(poolIndex, pool).
               poolPrices env dexKey from to amounts side transferFees chunked pool
                 (map (\<lambda>i. if success (results ! (poolIndex * length chunked + i))
                            then returnData (results ! (poolIndex * length chunked + i))
                            else 0)
                      [0..<length chunked]))
               (enumerate 0 pools))))
       \<and> (\<forall>pool rates.
            prices (poolPrices env dexKey from to amounts side transferFees chunked pool rates) =
              interpolate env (tl chunked)
                (tl (if isDestTokenTransferFeeToBeExchanged env transferFees
                     then applyTransferFee env rates side (destDexFee transferFees)
                            (DEST_TOKEN_DEX_TRANSFERS env)
                     else rates))
                amounts side)"
proof (intro conjI impI allI)
  let ?n = "length chunked"
  note unfold = getPricingFromRpc_unfold [OF assms(1,2,4), of dexKey, unfolded assms(3)]
  have range: "k * ?n + ?n \<le> length results" if "k < length pools" for k
    using that assms(5) by (rule offset_in_range)
  {
    assume failed: "list_all (\<lambda>r. \<not> success r) results"
    have "collect (map (\<lambda>(poolIndex, pool).
             case sampleRates results True chunked (side = SELL) (poolIndex * ?n) of
               Inl e \<Rightarrow> Inl e
             | Inr rates \<Rightarrow>
                 Inr (poolPrices env dexKey from to amounts side transferFees chunked pool rates))
             (enumerate 0 pools))
        = Inr (map (\<lambda>(poolIndex, pool).
             poolPrices env dexKey from to amounts side transferFees chunked pool
               (map (\<lambda>amount. getMockPriceForTesting amount (side = SELL)) chunked))
             (enumerate 0 pools))"
    proof (rule collect_all_Inr)
      fix x assume xin: "x \<in> set (enumerate 0 pools)"
      obtain k pool where x: "x = (k, pool)" by (cases x)
      have "k < length pools" using xin by (simp add: x in_set_enumerate_eq)
      then show "(case x of (poolIndex, pool) \<Rightarrow>
             case sampleRates results True chunked (side = SELL) (poolIndex * ?n) of
               Inl e \<Rightarrow> Inl e
             | Inr rates \<Rightarrow>
                 Inr (poolPrices env dexKey from to amounts side transferFees chunked pool rates))
          = Inr (case x of (poolIndex, pool) \<Rightarrow>
             poolPrices env dexKey from to amounts side transferFees chunked pool
               (map (\<lambda>amount. getMockPriceForTesting amount (side = SELL)) chunked))"
        using sampleRates_all_failed [OF range failed] by (simp add: x)
    qed
    also have "map (\<lambda>(poolIndex, pool).
             poolPrices env dexKey from to amounts side transferFees chunked pool
               (map (\<lambda>amount. getMockPriceForTesting amount (side = SELL)) chunked))
             (enumerate 0 pools)
        = map (\<lambda>pool.
             poolPrices env dexKey from to amounts side transferFees chunked pool
               (map (\<lambda>amount. getMockPriceForTesting amount (side = SELL)) chunked))
             (map snd (enumerate 0 pools))"
      by (simp add: case_prod_unfold o_def del: map_snd_enumerate)
    finally show "fst (getPricingFromRpc env dexKey config from to amounts side pools transferFees) =
             Inr (Some (map (\<lambda>pool.
               poolPrices env dexKey from to amounts side transferFees chunked pool
                 (map (\<lambda>amount. getMockPriceForTesting amount (side = SELL)) chunked))
               pools))"
      using failed by (simp add: unfold)
  }
  {
    assume some: "\<not> list_all (\<lambda>r. \<not> success r) results"
    have "collect (map (\<lambda>(poolIndex, pool).
             case sampleRates results False chunked (side = SELL) (poolIndex * ?n) of
               Inl e \<Rightarrow> Inl e
             | Inr rates \<Rightarrow>
                 Inr (poolPrices env dexKey from to amounts side transferFees chunked pool rates))
             (enumerate 0 pools))
        = Inr (map (\<lambda>(poolIndex, pool).
               poolPrices env dexKey from to amounts side transferFees chunked pool
                 (map (\<lambda>i. if success (results ! (poolIndex * ?n + i))
                            then returnData (results ! (poolIndex * ?n + i))
                            else 0)
                      [0..<?n]))
             (enumerate 0 pools))"
    proof (rule collect_all_Inr)
      fix x assume xin: "x \<in> set (enumerate 0 pools)"
      obtain k pool where x: "x = (k, pool)" by (cases x)
      have "k < length pools" using xin by (simp add: x in_set_enumerate_eq)
      then show "(case x of (poolIndex, pool) \<Rightarrow>
             case sampleRates results False chunked (side = SELL) (poolIndex * ?n) of
               Inl e \<Rightarrow> Inl e
             | Inr rates \<Rightarrow>
                 Inr (poolPrices env dexKey from to amounts side transferFees chunked pool rates))
          = Inr (case x of (poolIndex, pool) \<Rightarrow>
               poolPrices env dexKey from to amounts side transferFees chunked pool
                 (map (\<lambda>i. if success (results ! (poolIndex * ?n + i))
                            then returnData (results ! (poolIndex * ?n + i))
                            else 0)
                      [0..<?n]))"
        using sampleRates_some_succeeded [OF range] by (simp add: x)
    qed
    then show "fst (getPricingFromRpc env dexKey config from to amounts side pools transferFees) =
             Inr (Some (map (\<lambda>(poolIndex, pool).
               poolPrices env dexKey from to amounts side transferFees chunked pool
                 (map (\<lambda>i. if success (results ! (poolIndex * length chunked + i))
                            then returnData (results ! (poolIndex * length chunked + i))
                            else 0)
                      [0..<length chunked]))
               (enumerate 0 pools)))"
      using some by (simp add: unfold)
  }
  show "prices (poolPrices env dexKey from to amounts side transferFees chunked pool rates) =
              interpolate env (tl chunked)
                (tl (if isDestTokenTransferFeeToBeExchanged env transferFees
                     then applyTransferFee env rates side (destDexFee transferFees)
                            (DEST_TOKEN_DEX_TRANSFERS env)
                     else rates))
                amounts side" for pool rates
    by (simp add: poolPrices_def Let_def)
qed

lemma length_quoteCalldata:
  "length (quoteCalldata env config from to isSELL pools quoted) = length pools * length quoted"
  by (induction pools) (simp_all add: quoteCalldata_def)

lemma quoteCalldata_Cons:
  "quoteCalldata env config from to isSELL (pool # pools) quoted =
     map (\<lambda>amount. getMultiCallData env config (address from) (address to) (deployer pool)
            amount isSELL) quoted
     @ quoteCalldata env config from to isSELL pools quoted"
  by (simp add: quoteCalldata_def)

lemma quoteCalldata_slice:
  "k < length pools \<Longrightarrow>
     take (length quoted) (drop (k * length quoted)
       (quoteCalldata env config from to isSELL pools quoted))
     = map (\<lambda>amount. getMultiCallData env config (address from) (address to)
              (deployer (pools ! k)) amount isSELL) quoted"
proof (induction pools arbitrary: k)
  case Nil
  then show ?case by simp
next
  case (Cons pool pools)
  show ?case
  proof (cases k)
    case 0
    then show ?thesis by (simp add: quoteCalldata_Cons)
  next
    case (Suc j)
    with Cons show ?thesis by (simp add: quoteCalldata_Cons)
  qed
qed

lemma getPricingFromRpc_calls:
  assumes "those (chunkedAmounts (chunksCount config)
                 (getBigIntPow (decimals (if side = SELL then from else to))) amounts)
           = Some chunked"
  shows "snd (getPricingFromRpc env dexKey config from to amounts side pools transferFees) =
     quoteCalldata env config from to (side = SELL) pools
       (amountsForQuote env side transferFees chunked)"
  using assms
  by (simp add: getPricingFromRpc_def Let_def quoteCalldata_def split: sum.splits)

text \<open>
  Claim C2, as the code has it. For every non-empty requested amount vector and every list
  of candidate pools, the batch that \<open>getPricingFromRpc\<close> issues consists, pool after
  pool, of the calls for the sample amounts: the unit amount and \<open>chunksCount\<close> entries of
  the requested vector at the indices \<open>(i + 1) * floor((len - 1) / chunksCount)\<close>,
  passed through the source transfer fee when one applies (which returns as many amounts
  as it is given). That is \<open>chunksCount + 1\<close> calls per pool, whatever the length of the
  vector.
\<close>

theorem getPricingFromRpc_call_count:
  assumes "amounts \<noteq> []"
    and "length (amountsForQuote env side transferFees
            (spec_samples (chunksCount config)
               (getBigIntPow (decimals (if side = SELL then from else to))) amounts))
         = chunksCount config + 1"
  shows "snd (getPricingFromRpc env dexKey config from to amounts side pools transferFees) =
           quoteCalldata env config from to (side = SELL) pools
             (amountsForQuote env side transferFees
                (spec_samples (chunksCount config)
                   (getBigIntPow (decimals (if side = SELL then from else to))) amounts))
       \<and> length (snd (getPricingFromRpc env dexKey config from to amounts side pools
                        transferFees))
           = length pools * (chunksCount config + 1)
       \<and> (\<forall>k < length pools.
            take (chunksCount config + 1) (drop (k * (chunksCount config + 1))
              (snd (getPricingFromRpc env dexKey config from to amounts side pools
                      transferFees)))
            = map (\<lambda>amount. getMultiCallData env config (address from) (address to)
                     (deployer (pools ! k)) amount (side = SELL))
                (amountsForQuote env side transferFees
                   (spec_samples (chunksCount config)
                      (getBigIntPow (decimals (if side = SELL then from else to))) amounts)))"
proof -
  let ?quoted = "amountsForQuote env side transferFees
                (spec_samples (chunksCount config)
                   (getBigIntPow (decimals (if side = SELL then from else to))) amounts)"
  have calls: "snd (getPricingFromRpc env dexKey config from to amounts side pools transferFees)
      = quoteCalldata env config from to (side = SELL) pools ?quoted"
    by (rule getPricingFromRpc_calls) (rule chunkedAmounts_defined [OF assms(1)])
  have len: "length (quoteCalldata env config from to (side = SELL) pools ?quoted)
      = length pools * (chunksCount config + 1)"
    by (simp only: length_quoteCalldata assms(2))
  have slice: "take (chunksCount config + 1) (drop (k * (chunksCount config + 1))
              (quoteCalldata env config from to (side = SELL) pools ?quoted))
            = map (\<lambda>amount. getMultiCallData env config (address from) (address to)
                     (deployer (pools ! k)) amount (side = SELL)) ?quoted"
    if "k < length pools" for k
    using quoteCalldata_slice [OF that, of ?quoted env config "from" to "side = SELL"]
    by (simp only: assms(2))
  show ?thesis
    unfolding calls using len slice by blast
qed

lemma spec_samples_length: "length (spec_samples c u amounts) = c + 1"
  by (simp add: spec_samples_def)

lemma amountsForQuote_no_fee:
  "\<not> isSrcTokenTransferFeeToBeExchanged env transferFees
     \<Longrightarrow> amountsForQuote env side transferFees chunked = chunked"
  by (simp add: amountsForQuote_def)

lemma upt_0_10: "[0..<10] = [0, 1, 2, 3, 4, 5, 6, 7, 8, 9]"
  by code_simp

lemma amountsForSell_samples:
  "spec_samples (chunksCount HydrexFiConfig) (getBigIntPow (decimals WETH)) amountsForSell =
     [1000000000000000000, 1000000000000000000, 2000000000000000000, 3000000000000000000,
      4000000000000000000, 5000000000000000000, 6000000000000000000, 7000000000000000000,
      8000000000000000000, 9000000000000000000, 10000000000000000000]"
  by (simp add: spec_samples_def HydrexFiConfig_def getBigIntPow_def WETH_def amountsForSell_def
        upt_0_10)

lemma mock_prices_of_samples:
  "map (\<lambda>amount. getMockPriceForTesting amount True)
     [1000000000000000000, 1000000000000000000, 2000000000000000000, 3000000000000000000,
      4000000000000000000, 5000000000000000000, 6000000000000000000, 7000000000000000000,
      8000000000000000000, 9000000000000000000, 10000000000000000000]
   = [2500000000, 2500000000, 5000000000, 7500000000, 10000000000, 12500000000,
      15000000000, 17500000000, 20000000000, 22500000000, 25000000000]"
  by (simp add: getMockPriceForTesting_def signed_divide_int_def)

lemma example_env_no_fee:
  "amountsForQuote (example_env remote) side defaultTransferFees chunked = chunked"
  by (simp add: amountsForQuote_def example_env_def defaultTransferFees_def)

lemma example_env_remote: "tryAggregate (example_env remote) calls = remote calls"
  by (simp add: example_env_def)

theorem getPricingFromRpc_failure_policy_witness:
  "fst (getPricingFromRpc (example_env all_calls_fail) ''HydrexFi'' HydrexFiConfig WETH USDC
          amountsForSell SELL [wethUsdcPool] defaultTransferFees)
     = Inr (Some [poolPrices (example_env all_calls_fail) ''HydrexFi'' WETH USDC amountsForSell
                    SELL defaultTransferFees
                    (spec_samples 10 (10 ^ 18) amountsForSell) wethUsdcPool
                    [2500000000, 2500000000, 5000000000, 7500000000, 10000000000, 12500000000,
                     15000000000, 17500000000, 20000000000, 22500000000, 25000000000]])
   \<and> fst (getPricingFromRpc (example_env large_calls_fail) ''HydrexFi'' HydrexFiConfig WETH USDC
          amountsForSell SELL [wethUsdcPool] defaultTransferFees)
     = Inr (Some [poolPrices (example_env large_calls_fail) ''HydrexFi'' WETH USDC amountsForSell
                    SELL defaultTransferFees
                    (spec_samples 10 (10 ^ 18) amountsForSell) wethUsdcPool
                    [2400000000, 2400000000, 4800000000, 7200000000, 9600000000, 12000000000,
                     0, 0, 0, 0, 0]])"
proof -
  let ?chunked = "spec_samples (chunksCount HydrexFiConfig) (getBigIntPow (decimals WETH))
                    amountsForSell"
  let ?calls = "quoteCalldata (example_env all_calls_fail) HydrexFiConfig WETH USDC True
                  [wethUsdcPool] ?chunked"
  let ?calls' = "quoteCalldata (example_env large_calls_fail) HydrexFiConfig WETH USDC True
                  [wethUsdcPool] ?chunked"
  let ?failed = "map (\<lambda>c. \<lparr>success = False, returnData = 0\<rparr>) ?calls"
  let ?partly = "map (\<lambda>c. \<lparr>success = (call_amount c \<le> 5 * 10 ^ 18),
                    returnData = (call_amount c * 2400) sdiv 10 ^ 12\<rparr>) ?calls'"
  have nonempty: "amountsForSell \<noteq> []"
    by (simp add: amountsForSell_def)
  have samples: "those (chunkedAmounts (chunksCount HydrexFiConfig)
        (getBigIntPow (decimals (if SELL = SELL then WETH else USDC))) amountsForSell)
      = Some ?chunked"
    using chunkedAmounts_defined [OF nonempty] by simp
  have a: "list_all (\<lambda>r. \<not> success r) ?failed"
    by (simp add: list_all_iff)
  have b: "\<not> list_all (\<lambda>r. \<not> success r) ?partly"
    by (simp add: amountsForSell_samples quoteCalldata_def getMultiCallData_def)
  have partly: "?partly =
      [\<lparr>success = True, returnData = 2400000000\<rparr>, \<lparr>success = True, returnData = 2400000000\<rparr>,
       \<lparr>success = True, returnData = 4800000000\<rparr>, \<lparr>success = True, returnData = 7200000000\<rparr>,
       \<lparr>success = True, returnData = 9600000000\<rparr>, \<lparr>success = True, returnData = 12000000000\<rparr>,
       \<lparr>success = False, returnData = 14400000000\<rparr>, \<lparr>success = False, returnData = 16800000000\<rparr>,
       \<lparr>success = False, returnData = 19200000000\<rparr>, \<lparr>success = False, returnData = 21600000000\<rparr>,
       \<lparr>success = False, returnData = 24000000000\<rparr>]"
    by (simp add: amountsForSell_samples quoteCalldata_def getMultiCallData_def
          signed_divide_int_def)
  have A: "fst (getPricingFromRpc (example_env all_calls_fail) ''HydrexFi'' HydrexFiConfig WETH USDC
          amountsForSell SELL [wethUsdcPool] defaultTransferFees)
     = Inr (Some (map (\<lambda>pool. poolPrices (example_env all_calls_fail) ''HydrexFi'' WETH USDC
                    amountsForSell SELL defaultTransferFees ?chunked pool
                    (map (\<lambda>amount. getMockPriceForTesting amount (SELL = SELL)) ?chunked))
                  [wethUsdcPool]))"
    using getPricingFromRpc_failure_policy
      [of "[wethUsdcPool]" HydrexFiConfig SELL WETH USDC amountsForSell ?chunked
          "example_env all_calls_fail" defaultTransferFees ?failed "''HydrexFi''"]
      samples a
    by (simp add: example_env_no_fee example_env_remote all_calls_fail_def
          length_quoteCalldata spec_samples_length)
  have B: "fst (getPricingFromRpc (example_env large_calls_fail) ''HydrexFi'' HydrexFiConfig WETH USDC
          amountsForSell SELL [wethUsdcPool] defaultTransferFees)
     = Inr (Some (map (\<lambda>(poolIndex, pool).
               poolPrices (example_env large_calls_fail) ''HydrexFi'' WETH USDC amountsForSell
                 SELL defaultTransferFees ?chunked pool
                 (map (\<lambda>i. if success (?partly ! (poolIndex * length ?chunked + i))
                            then returnData (?partly ! (poolIndex * length ?chunked + i))
                            else 0)
                      [0..<length ?chunked]))
               (enumerate 0 [wethUsdcPool])))"
    using getPricingFromRpc_failure_policy
      [of "[wethUsdcPool]" HydrexFiConfig SELL WETH USDC amountsForSell ?chunked
          "example_env large_calls_fail" defaultTransferFees ?partly "''HydrexFi''"]
      samples b
    by (simp add: example_env_no_fee example_env_remote large_calls_fail_def
          length_quoteCalldata spec_samples_length)
  have len: "length ?chunked = 11"
    by (simp add: spec_samples_length HydrexFiConfig_def)
  have upt11: "[0..<11] = [0, 1, 2, 3, 4, 5, 6, 7, 8, 9, 10]"
    by code_simp
  have params: "chunksCount HydrexFiConfig = 10" "getBigIntPow (decimals WETH) = 10 ^ 18"
    by (simp_all add: HydrexFiConfig_def getBigIntPow_def WETH_def)
  have mock: "map (\<lambda>amount. getMockPriceForTesting amount (SELL = SELL)) ?chunked
      = [2500000000, 2500000000, 5000000000, 7500000000, 10000000000, 12500000000,
         15000000000, 17500000000, 20000000000, 22500000000, 25000000000]"
    using mock_prices_of_samples by (simp add: amountsForSell_samples)
  have rates: "map (\<lambda>i. if success (?partly ! (0 * length ?chunked + i))
                            then returnData (?partly ! (0 * length ?chunked + i))
                            else 0)
                      [0..<length ?chunked]
      = [2400000000, 2400000000, 4800000000, 7200000000, 9600000000, 12000000000,
         0, 0, 0, 0, 0]"
    unfolding partly len upt11 by simp
  show ?thesis
    using A B mock rates by (simp add: params enumerate_simps)
qed

theorem getPricingFromRpc_call_count_witness:
  "amountsForSell \<noteq> []
   \<and> map call_amount
        (snd (getPricingFromRpc (example_env batch_rejected) ''HydrexFi'' HydrexFiConfig WETH USDC
                amountsForSell SELL [wethUsdcPool, example_pool] defaultTransferFees))
      = [1000000000000000000, 1000000000000000000, 2000000000000000000, 3000000000000000000,
         4000000000000000000, 5000000000000000000, 6000000000000000000, 7000000000000000000,
         8000000000000000000, 9000000000000000000, 10000000000000000000,
         1000000000000000000, 1000000000000000000, 2000000000000000000, 3000000000000000000,
         4000000000000000000, 5000000000000000000, 6000000000000000000, 7000000000000000000,
         8000000000000000000, 9000000000000000000, 10000000000000000000]
   \<and> length (snd (getPricingFromRpc (example_env batch_rejected) ''HydrexFi'' HydrexFiConfig
                     WETH USDC amountsForSell SELL [wethUsdcPool, example_pool]
                     defaultTransferFees))
      = 2 * (10 + 1)"
proof -
  have nonempty: "amountsForSell \<noteq> []"
    by (simp add: amountsForSell_def)
  have params: "chunksCount HydrexFiConfig = 10"
    by (simp add: HydrexFiConfig_def)
  have w: "(if SELL = SELL then WETH else USDC) = WETH"
    by simp
  note inst = getPricingFromRpc_call_count
      [of amountsForSell "example_env batch_rejected" SELL defaultTransferFees HydrexFiConfig
          WETH USDC "''HydrexFi''" "[wethUsdcPool, example_pool]",
       unfolded example_env_no_fee spec_samples_length w amountsForSell_samples params, OF nonempty]
  show ?thesis
    using inst nonempty
    by (simp add: quoteCalldata_def getMultiCallData_def o_def
          amountsForSell_samples [unfolded params])
qed

text \<open>
  Claim C2, as stated, fails on the empty vector: with one candidate pool and
  \<open>chunksCount = 10\<close> the call ends with a \<^verbatim>\<open>TypeError\<close> before any batch is sent, so
  it issues no remote call where the claim counts eleven.
\<close>

theorem getPricingFromRpc_empty_vector_issues_no_call:
  "getPricingFromRpc (example_env all_calls_fail) ''HydrexFi'' HydrexFiConfig WETH USDC []
      SELL [wethUsdcPool] defaultTransferFees = (Inl TypeError, [])
   \<and> length (snd (getPricingFromRpc (example_env all_calls_fail) ''HydrexFi'' HydrexFiConfig
                     WETH USDC [] SELL [wethUsdcPool] defaultTransferFees))
       \<noteq> length [wethUsdcPool] * (chunksCount HydrexFiConfig + 1)"
  by (simp add: getPricingFromRpc_def HydrexFiConfig_def chunkedAmounts_empty)

lemma short_vector_samples:
  "those (chunkedAmounts 10 (10 ^ 18) [0, 10 ^ 18])
     = Some [10 ^ 18, 0, 0, 0, 0, 0, 0, 0, 0, 0, 0]"
  by (simp add: chunkedAmounts_def Let_def at_index_def upt_0_10)

text \<open>
  Claim C6, as stated, fails on a vector shorter than \<open>chunksCount + 1\<close>: for the two
  amounts \<open>[0, 10^18]\<close> the spacing is \<open>floor(1 / 10) = 0\<close>, every sampled index is
  \<open>0\<close>, and ten of the eleven remote calls of the pool quote the amount zero.
\<close>

theorem getPricingFromRpc_short_vector_quotes_zero:
  "map call_amount
     (snd (getPricingFromRpc (example_env all_calls_fail) ''HydrexFi'' HydrexFiConfig WETH USDC
            [0, 10 ^ 18] SELL [wethUsdcPool] defaultTransferFees))
   = [10 ^ 18, 0, 0, 0, 0, 0, 0, 0, 0, 0, 0]"
proof -
  have "those (chunkedAmounts (chunksCount HydrexFiConfig)
          (getBigIntPow (decimals (if SELL = SELL then WETH else USDC))) [0, 10 ^ 18])
        = Some [10 ^ 18, 0, 0, 0, 0, 0, 0, 0, 0, 0, 0]"
    using short_vector_samples by (simp add: HydrexFiConfig_def getBigIntPow_def WETH_def)
  from getPricingFromRpc_calls [OF this] show ?thesis
    by (simp add: example_env_no_fee quoteCalldata_def getMultiCallData_def)
qed

lemma interpolate_at_zero:
  "curve = [] \<or> 0 \<le> fst (hd curve) \<Longrightarrow> interpolate_at ((0, 0) # curve) 0 = 0"
  by (cases curve) (auto simp: signed_divide_int_def)

lemma interpolate_from_spec_zero:
  assumes "j < length amounts" and "amounts ! j = 0" and "\<forall>x \<in> set xs. 0 \<le> x"
  shows "length (interpolate_from_spec xs ys amounts side) = length amounts
       \<and> interpolate_from_spec xs ys amounts side ! j = 0"
proof -
  have "zip xs ys = [] \<or> 0 \<le> fst (hd (zip xs ys))"
    using assms(3) by (cases xs; cases ys) auto
  then have "interpolate_at ((0, 0) # zip xs ys) 0 = 0"
    by (rule interpolate_at_zero)
  then show ?thesis
    using assms(1,2) by (simp add: interpolate_from_spec_def)
qed

lemma collect_elem:
  "collect rs = Inr vs \<Longrightarrow> v \<in> set vs \<Longrightarrow> Inr v \<in> set rs"
proof (induction rs arbitrary: vs)
  case Nil
  then show ?case by simp
next
  case (Cons r rs)
  then show ?case
    by (cases r) (auto split: sum.splits)
qed

lemma getPricingFromRpc_result_shape:
  assumes "fst (getPricingFromRpc env dexKey config from to amounts side pools transferFees)
             = Inr (Some result)"
    and "p \<in> set result"
  shows "\<exists>chunked pool rates.
           those (chunkedAmounts (chunksCount config)
                   (getBigIntPow (decimals (if side = SELL then from else to))) amounts)
             = Some chunked
           \<and> p = poolPrices env dexKey from to amounts side transferFees chunked pool rates"
proof -
  from assms(1) obtain chunked results where
    ch: "those (chunkedAmounts (chunksCount config)
                   (getBigIntPow (decimals (if side = SELL then from else to))) amounts)
             = Some chunked"
    and col: "collect (map (\<lambda>(poolIndex, pool).
             case sampleRates results (list_all (\<lambda>r. \<not> success r) results) chunked
                    (side = SELL)
                    (poolIndex * length (amountsForQuote env side transferFees chunked)) of
               Inl e \<Rightarrow> Inl e
             | Inr rates \<Rightarrow>
                 Inr (poolPrices env dexKey from to amounts side transferFees chunked pool rates))
             (enumerate 0 pools)) = Inr result"
    by (auto simp: getPricingFromRpc_def Let_def split: if_splits option.splits sum.splits)
  from collect_elem [OF col assms(2)] obtain k pool where
    "(case sampleRates results (list_all (\<lambda>r. \<not> success r) results) chunked
                    (side = SELL)
                    (k * length (amountsForQuote env side transferFees chunked)) of
               Inl e \<Rightarrow> Inl e
             | Inr rates \<Rightarrow>
                 Inr (poolPrices env dexKey from to amounts side transferFees chunked pool rates))
       = Inr p"
    by auto
  then obtain rates where
    "p = poolPrices env dexKey from to amounts side transferFees chunked pool rates"
    by (auto split: sum.splits)
  with ch show ?thesis by blast
qed

lemma spec_samples_tail_subset:
  assumes "amounts \<noteq> []"
  shows "set (tl (spec_samples c u amounts)) \<subseteq> set amounts"
  using sample_index_in_range [OF assms] by (auto simp: spec_samples_def)

lemma spec_samples_nonzero:
  assumes "c < length amounts" and "0 \<notin> set (tl amounts)" and "u \<noteq> 0"
  shows "0 \<notin> set (spec_samples c u amounts)"
proof -
  have ne: "amounts \<noteq> []" using assms(1) by auto
  have "amounts ! ((i + 1) * ((length amounts - 1) div c)) \<noteq> 0" if "i < c" for i
  proof -
    define n where "n = (i + 1) * ((length amounts - 1) div c)"
    have "c \<le> length amounts - 1" using assms(1) by simp
    moreover have "0 < c" using that by simp
    ultimately have "1 \<le> (length amounts - 1) div c"
      by (simp add: div_greater_zero_iff Suc_le_eq)
    then have "1 \<le> n"
      unfolding n_def by (simp add: Suc_le_eq)
    then obtain m where m: "n = Suc m" by (cases n) auto
    have "n < length amounts"
      unfolding n_def by (rule sample_index_in_range [OF ne that])
    then have "m < length (tl amounts)" using m by simp
    then have "tl amounts ! m \<in> set (tl amounts)" by (rule nth_mem)
    moreover have "tl amounts ! m = amounts ! n"
      using m ne by (cases amounts) simp_all
    ultimately show ?thesis
      using assms(2) unfolding n_def by metis
  qed
  then show ?thesis
    using assms(3) by (auto simp: spec_samples_def)
qed

lemma call_amounts_quoteCalldata:
  "call_amount ` set (quoteCalldata env config from to isSELL pools quoted) \<subseteq> set quoted"
  by (auto simp: quoteCalldata_def getMultiCallData_def)

text \<open>
  Claim C6, as the code has it, with \<open>interpolate\<close> as the specification describes it.
  For every requested vector of non-negative amounts: the output produced for a zero
  entry is exactly zero for every pool of the result; and when the vector has more than
  \<open>chunksCount\<close> entries, none of them zero but possibly the leading one, and no source
  transfer fee applies, no remote quote call is issued for the amount zero.
\<close>

theorem getPricingFromRpc_leading_zero:
  assumes "\<forall>a \<in> set amounts. 0 \<le> a"
    and "interpolate env = interpolate_from_spec"
  shows "(\<forall>result p j.
            fst (getPricingFromRpc env dexKey config from to amounts side pools transferFees)
              = Inr (Some result)
            \<and> p \<in> set result \<and> j < length amounts \<and> amounts ! j = 0
            \<longrightarrow> length (prices p) = length amounts \<and> prices p ! j = 0)
       \<and> (chunksCount config < length amounts \<and> 0 \<notin> set (tl amounts)
           \<and> \<not> isSrcTokenTransferFeeToBeExchanged env transferFees
           \<longrightarrow> (\<forall>call \<in> set (snd (getPricingFromRpc env dexKey config from to amounts side
                                        pools transferFees)).
                  call_amount call \<noteq> 0))"
proof (rule conjI)
  show "\<forall>result p j.
            fst (getPricingFromRpc env dexKey config from to amounts side pools transferFees)
              = Inr (Some result)
            \<and> p \<in> set result \<and> j < length amounts \<and> amounts ! j = 0
            \<longrightarrow> length (prices p) = length amounts \<and> prices p ! j = 0"
  proof (intro allI impI)
  fix result p j
  assume h: "fst (getPricingFromRpc env dexKey config from to amounts side pools transferFees)
              = Inr (Some result)
            \<and> p \<in> set result \<and> j < length amounts \<and> amounts ! j = 0"
  then have ne: "amounts \<noteq> []" by auto
  from h getPricingFromRpc_result_shape obtain chunked pool rates where
    ch: "those (chunkedAmounts (chunksCount config)
                   (getBigIntPow (decimals (if side = SELL then from else to))) amounts)
             = Some chunked"
    and p: "p = poolPrices env dexKey from to amounts side transferFees chunked pool rates"
    by blast
  have "chunked = spec_samples (chunksCount config)
                   (getBigIntPow (decimals (if side = SELL then from else to))) amounts"
    using ch chunkedAmounts_defined [OF ne] by simp
  then have nonneg: "\<forall>x \<in> set (tl chunked). 0 \<le> x"
    using spec_samples_tail_subset [OF ne] assms(1) by blast
  obtain ys where pr: "prices p = interpolate_from_spec (tl chunked) ys amounts side"
    unfolding p by (simp add: poolPrices_def Let_def assms(2))
  from h have "j < length amounts" and "amounts ! j = 0"
    by simp_all
  then show "length (prices p) = length amounts \<and> prices p ! j = 0"
    unfolding pr using nonneg by (rule interpolate_from_spec_zero)
  qed
next
  show "chunksCount config < length amounts \<and> 0 \<notin> set (tl amounts)
           \<and> \<not> isSrcTokenTransferFeeToBeExchanged env transferFees
           \<longrightarrow> (\<forall>call \<in> set (snd (getPricingFromRpc env dexKey config from to amounts side
                                        pools transferFees)).
                  call_amount call \<noteq> 0)"
  proof (intro impI ballI)
  fix call
  assume h: "chunksCount config < length amounts \<and> 0 \<notin> set (tl amounts)
           \<and> \<not> isSrcTokenTransferFeeToBeExchanged env transferFees"
    and c: "call \<in> set (snd (getPricingFromRpc env dexKey config from to amounts side
                                        pools transferFees))"
  let ?u = "getBigIntPow (decimals (if side = SELL then from else to))"
  have ne: "amounts \<noteq> []" using h by auto
  have "snd (getPricingFromRpc env dexKey config from to amounts side pools transferFees)
      = quoteCalldata env config from to (side = SELL) pools
          (spec_samples (chunksCount config) ?u amounts)"
    using getPricingFromRpc_calls [OF chunkedAmounts_defined [OF ne]] h
    by (simp add: amountsForQuote_no_fee)
  then have "call_amount call \<in> set (spec_samples (chunksCount config) ?u amounts)"
    using c call_amounts_quoteCalldata by fastforce
  moreover have "?u \<noteq> 0"
    by (simp add: getBigIntPow_def)
  ultimately show "call_amount call \<noteq> 0"
    using spec_samples_nonzero h by metis
qed
qed

lemma getPricingFromRpc_returns:
  assumes "pools \<noteq> []"
    and "those (chunkedAmounts (chunksCount config)
                 (getBigIntPow (decimals (if side = SELL then from else to))) amounts)
           = Some chunked"
    and "length (amountsForQuote env side transferFees chunked) = length chunked"
    and "tryAggregate env (quoteCalldata env config from to (side = SELL) pools
                             (amountsForQuote env side transferFees chunked)) = Inr results"
    and "length results = length pools * length chunked"
  shows "\<exists>result.
           fst (getPricingFromRpc env dexKey config from to amounts side pools transferFees)
             = Inr (Some result)
           \<and> length result = length pools"
proof -
  let ?n = "length chunked"
  let ?all = "list_all (\<lambda>r. \<not> success r) results"
  let ?rates = "\<lambda>k. map (\<lambda>(i, amount).
            if success (results ! (k * ?n + i)) then returnData (results ! (k * ?n + i))
            else if ?all then getMockPriceForTesting amount (side = SELL) else 0)
          (enumerate 0 chunked)"
  have "collect (map (\<lambda>(poolIndex, pool).
             case sampleRates results ?all chunked (side = SELL) (poolIndex * ?n) of
               Inl e \<Rightarrow> Inl e
             | Inr rates \<Rightarrow>
                 Inr (poolPrices env dexKey from to amounts side transferFees chunked pool rates))
             (enumerate 0 pools))
        = Inr (map (\<lambda>(poolIndex, pool).
             poolPrices env dexKey from to amounts side transferFees chunked pool
               (?rates poolIndex))
             (enumerate 0 pools))"
  proof (rule collect_all_Inr)
    fix x assume xin: "x \<in> set (enumerate 0 pools)"
    obtain k pool where x: "x = (k, pool)" by (cases x)
    have "k < length pools" using xin by (simp add: x in_set_enumerate_eq)
    then have "k * ?n + ?n \<le> length results"
      using assms(5) by (rule offset_in_range)
    then show "(case x of (poolIndex, pool) \<Rightarrow>
             case sampleRates results ?all chunked (side = SELL) (poolIndex * ?n) of
               Inl e \<Rightarrow> Inl e
             | Inr rates \<Rightarrow>
                 Inr (poolPrices env dexKey from to amounts side transferFees chunked pool rates))
          = Inr (case x of (poolIndex, pool) \<Rightarrow>
             poolPrices env dexKey from to amounts side transferFees chunked pool
               (?rates poolIndex))"
      using sampleRates_in_range [of "k * ?n" chunked results ?all "side = SELL"]
      by (simp add: x)
  qed
  then show ?thesis
    using getPricingFromRpc_unfold [OF assms(1,2,4), of dexKey, unfolded assms(3)]
    by simp
qed

lemma large_calls_fail_returns:
  "\<exists>p. fst (getPricingFromRpc (example_env large_calls_fail) ''HydrexFi'' HydrexFiConfig
             WETH USDC amountsForSell SELL [wethUsdcPool] defaultTransferFees)
         = Inr (Some [p])"
proof -
  have nonempty: "amountsForSell \<noteq> []"
    by (simp add: amountsForSell_def)
  have "\<exists>result.
           fst (getPricingFromRpc (example_env large_calls_fail) ''HydrexFi'' HydrexFiConfig
             WETH USDC amountsForSell SELL [wethUsdcPool] defaultTransferFees)
             = Inr (Some result)
           \<and> length result = length [wethUsdcPool]"
    by (rule getPricingFromRpc_returns [OF _ chunkedAmounts_defined [OF nonempty]])
       (simp add: example_env_no_fee example_env_remote large_calls_fail_def
          length_quoteCalldata)+
  then obtain result where
    r: "fst (getPricingFromRpc (example_env large_calls_fail) ''HydrexFi'' HydrexFiConfig
             WETH USDC amountsForSell SELL [wethUsdcPool] defaultTransferFees)
             = Inr (Some result)"
    and "length result = 1"
    by auto
  then obtain p where "result = [p]"
    by (cases result) auto
  with r show ?thesis by blast
qed

theorem getPricingFromRpc_leading_zero_witness:
  "list_all (\<lambda>a. 0 \<le> a) amountsForSell
   \<and> interpolate (example_env large_calls_fail) = interpolate_from_spec
   \<and> chunksCount HydrexFiConfig < length amountsForSell
   \<and> 0 \<notin> set (tl amountsForSell)
   \<and> \<not> isSrcTokenTransferFeeToBeExchanged (example_env large_calls_fail) defaultTransferFees
   \<and> amountsForSell ! 0 = 0
   \<and> (\<exists>p. fst (getPricingFromRpc (example_env large_calls_fail) ''HydrexFi'' HydrexFiConfig
                 WETH USDC amountsForSell SELL [wethUsdcPool] defaultTransferFees)
             = Inr (Some [p])
          \<and> length (prices p) = length amountsForSell \<and> prices p ! 0 = 0)
   \<and> 0 \<notin> call_amount `
         set (snd (getPricingFromRpc (example_env large_calls_fail) ''HydrexFi'' HydrexFiConfig
                     WETH USDC amountsForSell SELL [wethUsdcPool] defaultTransferFees))"
proof -
  have h1: "\<forall>a \<in> set amountsForSell. 0 \<le> a"
    by (simp add: amountsForSell_def)
  have h2: "interpolate (example_env large_calls_fail) = interpolate_from_spec"
    by (simp add: example_env_def)
  have h3: "chunksCount HydrexFiConfig < length amountsForSell"
    by (simp add: HydrexFiConfig_def amountsForSell_def)
  have h4: "0 \<notin> set (tl amountsForSell)"
    by (simp add: amountsForSell_def)
  have h5: "\<not> isSrcTokenTransferFeeToBeExchanged (example_env large_calls_fail)
              defaultTransferFees"
    by (simp add: example_env_def defaultTransferFees_def)
  have h6: "amountsForSell ! 0 = 0" "0 < length amountsForSell"
    by (simp_all add: amountsForSell_def)
  note inst = getPricingFromRpc_leading_zero
      [OF h1 h2, of "''HydrexFi''" HydrexFiConfig WETH USDC SELL "[wethUsdcPool]"
          defaultTransferFees]
  obtain p where p: "fst (getPricingFromRpc (example_env large_calls_fail) ''HydrexFi''
                 HydrexFiConfig WETH USDC amountsForSell SELL [wethUsdcPool]
                 defaultTransferFees) = Inr (Some [p])"
    using large_calls_fail_returns by blast
  have zero: "length (prices p) = length amountsForSell \<and> prices p ! 0 = 0"
    using inst p h6 by (metis list.set_intros(1))
  have calls: "0 \<notin> call_amount `
         set (snd (getPricingFromRpc (example_env large_calls_fail) ''HydrexFi'' HydrexFiConfig
                     WETH USDC amountsForSell SELL [wethUsdcPool] defaultTransferFees))"
    using inst h3 h4 h5 by force
  show ?thesis
    using h1 h2 h3 h4 h5 h6 p zero calls by (simp add: list_all_iff)
qed

subsection \<open>The entry point\<close>

lemma getPricesVolume_fst:
  "fst (getPricesVolume env dexKey config registry srcToken destToken amounts side blockNumber
          limitPools transferFees) =
     (case fst (getPricesVolume_try env dexKey config registry srcToken destToken amounts side
                  blockNumber limitPools transferFees) of
        Inl e \<Rightarrow> Inr None
      | Inr rpcPrice \<Rightarrow> Inr rpcPrice)"
  by (simp add: getPricesVolume_def split: prod.splits sum.splits)

text \<open>
  Claim C3. \<open>getPricesVolume\<close> never ends with an exception: it always returns a value.
  It returns \<^verbatim>\<open>null\<close> when the wrapped source and destination token addresses are equal,
  when a source-side transfer fee applies and the side is BUY, and when the body of its
  \<^verbatim>\<open>try\<close> block raises any exception.
\<close>

theorem getPricesVolume_never_throws:
  "(\<exists>rpcPrice.
      fst (getPricesVolume env dexKey config registry srcToken destToken amounts side blockNumber
             limitPools transferFees) = Inr rpcPrice)
   \<and> (address (wrapETH env srcToken) = address (wrapETH env destToken) \<longrightarrow>
        fst (getPricesVolume env dexKey config registry srcToken destToken amounts side
               blockNumber limitPools transferFees) = Inr None)
   \<and> (isSrcTokenTransferFeeToBeExchanged env transferFees \<and> side = BUY \<longrightarrow>
        fst (getPricesVolume env dexKey config registry srcToken destToken amounts side
               blockNumber limitPools transferFees) = Inr None)
   \<and> (\<forall>e. fst (getPricesVolume_try env dexKey config registry srcToken destToken amounts side
                   blockNumber limitPools transferFees) = Inl e \<longrightarrow>
        fst (getPricesVolume env dexKey config registry srcToken destToken amounts side
               blockNumber limitPools transferFees) = Inr None)"
proof (intro conjI impI allI)
  show "\<exists>rpcPrice.
      fst (getPricesVolume env dexKey config registry srcToken destToken amounts side blockNumber
             limitPools transferFees) = Inr rpcPrice"
    by (simp add: getPricesVolume_fst split: sum.splits)
next
  assume "address (wrapETH env srcToken) = address (wrapETH env destToken)"
  then show "fst (getPricesVolume env dexKey config registry srcToken destToken amounts side
               blockNumber limitPools transferFees) = Inr None"
    by (simp add: getPricesVolume_fst getPricesVolume_try_def Let_def)
next
  assume "isSrcTokenTransferFeeToBeExchanged env transferFees \<and> side = BUY"
  then show "fst (getPricesVolume env dexKey config registry srcToken destToken amounts side
               blockNumber limitPools transferFees) = Inr None"
    by (simp add: getPricesVolume_fst getPricesVolume_try_def)
next
  fix e
  assume "fst (getPricesVolume_try env dexKey config registry srcToken destToken amounts side
                   blockNumber limitPools transferFees) = Inl e"
  then show "fst (getPricesVolume env dexKey config registry srcToken destToken amounts side
               blockNumber limitPools transferFees) = Inr None"
    by (simp add: getPricesVolume_fst)
qed

lemma lowered_addresses:
  "toLowerCase (address WETH) = ''0x4200000000000000000000000000000000000006''"
  "toLowerCase (address USDC) = ''0x833589fcd6edb6e08f4c7c32d4f71b54bda02913''"
  "toLowerCase ''0x4200000000000000000000000000000000000006''
     = ''0x4200000000000000000000000000000000000006''"
  "toLowerCase ''0x833589fcd6edb6e08f4c7c32d4f71b54bda02913''
     = ''0x833589fcd6edb6e08f4c7c32d4f71b54bda02913''"
  by code_simp+

lemma registry_lookup:
  "fst (getAvailablePoolsForPair (\<lambda>a. a) [wethUsdcPool]
          ''0x4200000000000000000000000000000000000006''
          ''0x833589fcd6edb6e08f4c7c32d4f71b54bda02913'' blockNumber) = [wethUsdcPool]"
  by (simp add: getAvailablePoolsForPair_def Let_def lowered_addresses matches_pair_def
        wethUsdcPool_def array_sort_def)

lemma rejected_batch_raises:
  "fst (getPricesVolume_try (example_env batch_rejected) ''HydrexFi'' HydrexFiConfig
          [wethUsdcPool] WETH USDC amountsForSell SELL 18000000 None defaultTransferFees)
     = Inl (Error ''network error'')"
proof -
  have nonempty: "amountsForSell \<noteq> []"
    by (simp add: amountsForSell_def)
  have "fst (getPricingFromRpc (example_env batch_rejected) ''HydrexFi'' HydrexFiConfig
               WETH USDC amountsForSell SELL [wethUsdcPool] defaultTransferFees)
          = Inl (Error ''network error'')"
    using chunkedAmounts_defined [OF nonempty]
    by (simp add: getPricingFromRpc_def Let_def example_env_remote batch_rejected_def)
  then show ?thesis
    by (simp add: getPricesVolume_try_def Let_def example_env_def defaultTransferFees_def
          lowered_addresses registry_lookup)
qed

theorem getPricesVolume_never_throws_witness:
  "address (wrapETH (example_env all_calls_fail) WETH)
     = address (wrapETH (example_env all_calls_fail) WETH)
   \<and> fst (getPricesVolume (example_env all_calls_fail) ''HydrexFi'' HydrexFiConfig
            [wethUsdcPool] WETH WETH amountsForSell SELL 18000000 None defaultTransferFees)
       = Inr None
   \<and> isSrcTokenTransferFeeToBeExchanged (example_env all_calls_fail)
        (defaultTransferFees\<lparr>srcDexFee := 100\<rparr>)
   \<and> fst (getPricesVolume (example_env all_calls_fail) ''HydrexFi'' HydrexFiConfig
            [wethUsdcPool] WETH USDC amountsForSell BUY 18000000 None
            (defaultTransferFees\<lparr>srcDexFee := 100\<rparr>))
       = Inr None
   \<and> fst (getPricesVolume_try (example_env batch_rejected) ''HydrexFi'' HydrexFiConfig
            [wethUsdcPool] WETH USDC amountsForSell SELL 18000000 None defaultTransferFees)
       = Inl (Error ''network error'')
   \<and> fst (getPricesVolume (example_env batch_rejected) ''HydrexFi'' HydrexFiConfig
            [wethUsdcPool] WETH USDC amountsForSell SELL 18000000 None defaultTransferFees)
       = Inr None"
proof -
  have fee: "isSrcTokenTransferFeeToBeExchanged (example_env all_calls_fail)
        (defaultTransferFees\<lparr>srcDexFee := 100\<rparr>)"
    by (simp add: example_env_def defaultTransferFees_def)
  have same: "fst (getPricesVolume (example_env all_calls_fail) ''HydrexFi'' HydrexFiConfig
            [wethUsdcPool] WETH WETH amountsForSell SELL 18000000 None defaultTransferFees)
       = Inr None"
    using getPricesVolume_never_throws
      [of "example_env all_calls_fail" "''HydrexFi''" HydrexFiConfig "[wethUsdcPool]" WETH WETH
          amountsForSell SELL 18000000 None defaultTransferFees]
    by simp
  have buy: "fst (getPricesVolume (example_env all_calls_fail) ''HydrexFi'' HydrexFiConfig
            [wethUsdcPool] WETH USDC amountsForSell BUY 18000000 None
            (defaultTransferFees\<lparr>srcDexFee := 100\<rparr>))
       = Inr None"
    using getPricesVolume_never_throws
      [of "example_env all_calls_fail" "''HydrexFi''" HydrexFiConfig "[wethUsdcPool]" WETH USDC
          amountsForSell BUY 18000000 None "defaultTransferFees\<lparr>srcDexFee := 100\<rparr>"]
      fee
    by simp
  have raised: "fst (getPricesVolume (example_env batch_rejected) ''HydrexFi'' HydrexFiConfig
            [wethUsdcPool] WETH USDC amountsForSell SELL 18000000 None defaultTransferFees)
       = Inr None"
    using getPricesVolume_never_throws
      [of "example_env batch_rejected" "''HydrexFi''" HydrexFiConfig "[wethUsdcPool]" WETH USDC
          amountsForSell SELL 18000000 None defaultTransferFees]
      rejected_batch_raises
    by simp
  show ?thesis
    using fee same buy raised rejected_batch_raises by simp
qed

end
